theory Spec2Isabelle
  imports Complex_Main "HOL-Library.AList"
begin

section \<open>Tables, cells and errors\<close>

text \<open>
  The repository works on pandas tables. A table is kept here column by column, as pandas
  keeps it: an association list from column label to the column's cells, in column order.
  A cell is \<open>None\<close> when pandas holds NaN/NaT there. A float is idealised as a real
  number (\<open>1e-6\<close> is the real \<open>1 / 10^6\<close>); a timestamp is the integer pandas stores.
  In a numeric result \<open>None\<close> also stands for the non-finite value that a float division
  by zero leaves (numpy raises nothing there), so every arithmetic step maps \<open>None\<close>
  to \<open>None\<close>. Rows are addressed by position: every table below carries the
  \<open>RangeIndex\<close> that \<open>read_csv\<close> and \<open>merge\<close> produce, or is combined only with
  columns of itself.
\<close>

datatype val = Num real | Txt string | Date int

type_synonym cell = "val option"
type_synonym series = "cell list"
type_synonym frame = "(string \<times> series) list"

datatype error =
    KeyError string
  | TypeError
  | ValueError string
  | AttributeError
  | MergeError
  | LinAlgError

definition and_then :: "error + 'a \<Rightarrow> ('a \<Rightarrow> error + 'b) \<Rightarrow> error + 'b" where
  "and_then m f = (case m of Inl e \<Rightarrow> Inl e | Inr x \<Rightarrow> f x)"

definition columns :: "frame \<Rightarrow> string list" where
  "columns f = map fst f"

definition nrows :: "frame \<Rightarrow> nat" where
  "nrows f = (case f of [] \<Rightarrow> 0 | (c, s) # rest \<Rightarrow> length s)"

text \<open>\<open>data[c]\<close>: the column, or \<open>KeyError\<close>.\<close>

definition getcol :: "frame \<Rightarrow> string \<Rightarrow> error + series" where
  "getcol f c = (case map_of f c of None \<Rightarrow> Inl (KeyError c) | Some s \<Rightarrow> Inr s)"

text \<open>\<open>data[c] = s\<close>: replaces the column in place when the label exists, appends it otherwise.\<close>

definition setcol :: "frame \<Rightarrow> string \<Rightarrow> series \<Rightarrow> frame" where
  "setcol f c s = AList.update c s f"

text \<open>\<open>data[[c1, c2, ...]]\<close>: the listed columns in the listed order, \<open>KeyError\<close> on the
  first label that is missing.\<close>

fun select :: "frame \<Rightarrow> string list \<Rightarrow> error + frame" where
  "select f [] = Inr []"
| "select f (c # cs) =
     and_then (getcol f c) (\<lambda>s. and_then (select f cs) (\<lambda>rest. Inr ((c, s) # rest)))"

text \<open>Positional row selection, as a boolean mask or \<open>dropna\<close> performs it.\<close>

definition take_rows :: "nat list \<Rightarrow> frame \<Rightarrow> frame" where
  "take_rows idx f = map (\<lambda>(c, s). (c, map (\<lambda>i. s ! i) idx)) f"

definition mask_rows :: "(nat \<Rightarrow> bool) \<Rightarrow> frame \<Rightarrow> frame" where
  "mask_rows keep f = take_rows (filter keep [0 ..< nrows f]) f"

subsection \<open>Numeric columns\<close>

fun is_numeric :: "cell \<Rightarrow> bool" where
  "is_numeric None = True"
| "is_numeric (Some (Num x)) = True"
| "is_numeric (Some (Txt s)) = False"
| "is_numeric (Some (Date t)) = False"

fun to_float :: "cell \<Rightarrow> real option" where
  "to_float (Some (Num x)) = Some x"
| "to_float c = None"

text \<open>Arithmetic on a column raises \<open>TypeError\<close> when a cell is not a number.\<close>

definition as_floats :: "series \<Rightarrow> error + real option list" where
  "as_floats s = (if list_all is_numeric s then Inr (map to_float s) else Inl TypeError)"

definition floats :: "real option list \<Rightarrow> series" where
  "floats xs = map (map_option Num) xs"

definition eps :: real where
  "eps = 1 / 10 ^ 6"

fun fadd :: "real option \<Rightarrow> real option \<Rightarrow> real option" where
  "fadd (Some x) (Some y) = Some (x + y)"
| "fadd a b = None"

fun fsub :: "real option \<Rightarrow> real option \<Rightarrow> real option" where
  "fsub (Some x) (Some y) = Some (x - y)"
| "fsub a b = None"

fun fmul :: "real option \<Rightarrow> real option \<Rightarrow> real option" where
  "fmul (Some x) (Some y) = Some (x * y)"
| "fmul a b = None"

fun fdiv :: "real option \<Rightarrow> real option \<Rightarrow> real option" where
  "fdiv (Some x) (Some y) = (if y = 0 then None else Some (x / y))"
| "fdiv a b = None"

text \<open>The non-null values of a column, and the reductions that skip NaN.\<close>

definition valid :: "real option list \<Rightarrow> real list" where
  "valid xs = concat (map (\<lambda>x. case x of None \<Rightarrow> [] | Some v \<Rightarrow> [v]) xs)"

definition np_mean :: "real list \<Rightarrow> real" where
  "np_mean xs = sum_list xs / real (length xs)"

definition nanmean :: "real option list \<Rightarrow> real option" where
  "nanmean xs = (if valid xs = [] then None else Some (np_mean (valid xs)))"

fun max_list :: "real list \<Rightarrow> real" where
  "max_list [] = 0"
| "max_list [x] = x"
| "max_list (x # y # ys) = max x (max_list (y # ys))"

definition nanmax :: "real option list \<Rightarrow> real option" where
  "nanmax xs = (if valid xs = [] then None else Some (max_list (valid xs)))"

text \<open>\<open>np.std\<close>: the population standard deviation (\<open>ddof = 0\<close>).\<close>

definition np_var :: "real list \<Rightarrow> real" where
  "np_var xs = np_mean (map (\<lambda>x. (x - np_mean xs)\<^sup>2) xs)"

definition np_std :: "real list \<Rightarrow> real" where
  "np_std xs = sqrt (np_var xs)"

subsection \<open>Joins\<close>

text \<open>
  \<open>left.merge(right, how=..., on=...)\<close>: the key columns must be columns of both tables
  (\<open>KeyError\<close>). Each left row is paired with every right row whose key cells are equal,
  in the order of the right table; a null key equals a null key, as in pandas. A left row
  without a partner is kept by \<open>how="left"\<close>, with null right cells, and dropped by
  \<open>how="inner"\<close>. The result has the left columns and then the right columns that are not
  keys; a label that both tables have outside the keys gets the suffix \<open>_x\<close> on the left
  and \<open>_y\<close> on the right, and pandas refuses a result with a repeated label
  (\<open>MergeError\<close>).
\<close>

datatype how = Inner | Left

definition join_columns ::
  "string list \<Rightarrow> frame \<Rightarrow> frame \<Rightarrow> (nat \<times> nat option) list \<Rightarrow> error + frame" where
  "join_columns on left right pairs =
     (let lcols = map (\<lambda>(c, s).
            (if c \<notin> set on \<and> c \<in> set (columns right) then c @ ''_x'' else c,
             map (\<lambda>(i, j). s ! i) pairs)) left;
          rcols = map (\<lambda>(c, s).
            (if c \<in> set (columns left) then c @ ''_y'' else c,
             map (\<lambda>(i, j). case j of None \<Rightarrow> None | Some k \<Rightarrow> s ! k) pairs))
            (filter (\<lambda>(c, s). c \<notin> set on) right);
          out = lcols @ rcols
      in if distinct (columns out) then Inr out else Inl MergeError)"

definition key_at :: "frame \<Rightarrow> string list \<Rightarrow> nat \<Rightarrow> cell list" where
  "key_at f on i = map (\<lambda>k. case map_of f k of None \<Rightarrow> None | Some s \<Rightarrow> s ! i) on"

definition pd_merge :: "frame \<Rightarrow> frame \<Rightarrow> string list \<Rightarrow> how \<Rightarrow> error + frame" where
  "pd_merge left right on how =
     (case find (\<lambda>k. k \<notin> set (columns left) \<or> k \<notin> set (columns right)) on of
        Some k \<Rightarrow> Inl (KeyError k)
      | None \<Rightarrow>
          join_columns on left right
            (concat (map (\<lambda>i.
               let ms = filter (\<lambda>j. key_at right on j = key_at left on i) [0 ..< nrows right]
               in if ms = [] then (case how of Left \<Rightarrow> [(i, None)] | Inner \<Rightarrow> [])
                  else map (\<lambda>j. (i, Some j)) ms)
             [0 ..< nrows left])))"

text \<open>
  \<open>pd.merge_asof(left, right, left_index=True, right_index=True, direction="nearest")\<close>:
  the key of a row is its index label. For a left key \<open>a\<close> pandas finds the last right
  row whose key is \<open>\<le> a\<close> and the first right row whose key is \<open>\<ge> a\<close> and takes the
  closer of the two, the earlier one on a tie. Every left row is kept. The two tables carry
  the \<open>RangeIndex\<close> that \<open>read_csv\<close> gave them, which \<open>sort_index\<close> leaves as it is,
  so the keys of a table of \<open>n\<close> rows are \<open>0, ..., n - 1\<close>.
\<close>

definition asof_nearest :: "nat list \<Rightarrow> nat \<Rightarrow> nat option" where
  "asof_nearest rk a =
     (let bs = filter (\<lambda>j. rk ! j \<le> a) [0 ..< length rk];
          fs = filter (\<lambda>j. a \<le> rk ! j) [0 ..< length rk]
      in if bs = [] then (if fs = [] then None else Some (hd fs))
         else if fs = [] then Some (last bs)
         else if a - rk ! last bs \<le> rk ! hd fs - a then Some (last bs) else Some (hd fs))"

definition merge_asof :: "frame \<Rightarrow> frame \<Rightarrow> error + frame" where
  "merge_asof left right =
     join_columns [] left right
       (map (\<lambda>i. (i, asof_nearest [0 ..< nrows right] i)) [0 ..< nrows left])"

text \<open>
  \<open>fillna(method="ffill")\<close>: a null cell takes the last non-null cell above it in its
  column and stays null when there is none. \<open>isnull().sum().sum()\<close> counts the null cells.
\<close>

fun ffill_from :: "cell \<Rightarrow> series \<Rightarrow> series" where
  "ffill_from prev [] = []"
| "ffill_from prev (None # xs) = prev # ffill_from prev xs"
| "ffill_from prev (Some v # xs) = Some v # ffill_from (Some v) xs"

definition ffill :: "frame \<Rightarrow> frame" where
  "ffill f = map (\<lambda>(c, s). (c, ffill_from None s)) f"

definition count_missing :: "frame \<Rightarrow> nat" where
  "count_missing f = sum_list (map (\<lambda>(c, s). length (filter (\<lambda>x. x = None) s)) f)"

text \<open>
  \<open>s.fillna(other)\<close> with a column of the same table, and \<open>dropna(subset=[c])\<close>.
\<close>

definition fillna_with :: "series \<Rightarrow> series \<Rightarrow> series" where
  "fillna_with s other = map2 (\<lambda>a b. case a of None \<Rightarrow> b | Some v \<Rightarrow> Some v) s other"

definition dropna_subset :: "string \<Rightarrow> frame \<Rightarrow> error + frame" where
  "dropna_subset c f = and_then (getcol f c) (\<lambda>s. Inr (mask_rows (\<lambda>i. s ! i \<noteq> None) f))"

text \<open>
  \<open>groupby(key)[col].transform("mean")\<close>: each row receives the mean of the non-null cells
  of \<open>col\<close> over the rows with the same key; a row with a null key receives null.
\<close>

definition groupby_transform_mean :: "series \<Rightarrow> real option list \<Rightarrow> real option list" where
  "groupby_transform_mean keys xs =
     map (\<lambda>i. case keys ! i of
                 None \<Rightarrow> None
               | Some k \<Rightarrow> nanmean (map (\<lambda>j. xs ! j)
                             (filter (\<lambda>j. keys ! j = Some k) [0 ..< length keys])))
       [0 ..< length keys]"

section \<open>data_manager.py\<close>

record data_manager =
  monitoring_data :: frame
  weather_data :: frame
  soil_data :: frame
  yield_history :: frame

text \<open>
  The manager after \<open>load_data\<close>. \<open>load_data\<close> takes the four tables as \<open>read_csv\<close>
  returns them; \<open>read_csv(..., parse_dates=["date"])\<close> raises \<open>ValueError\<close> for a file
  without a column \<open>date\<close>. The calendar arithmetic of \<open>.dt.year\<close> and the reading of a
  number from text in \<open>to_numeric\<close> are the library's own and are parameters here
  (\<open>year_of\<close>, \<open>parse\<close>). \<open>.dt\<close> needs a column of dates (\<open>AttributeError\<close>);
  \<open>to_numeric(errors="coerce")\<close> makes a null of what is not a number.
\<close>

fun is_date :: "cell \<Rightarrow> bool" where
  "is_date None = True"
| "is_date (Some (Date t)) = True"
| "is_date (Some v) = False"

definition dt_year :: "(int \<Rightarrow> int) \<Rightarrow> series \<Rightarrow> error + series" where
  "dt_year year_of s =
     (if list_all is_date s
      then Inr (map (\<lambda>c. case c of Some (Date t) \<Rightarrow> Some (Num (real_of_int (year_of t)))
                            | _ \<Rightarrow> None) s)
      else Inl AttributeError)"

fun to_numeric_coerce :: "(string \<Rightarrow> real option) \<Rightarrow> cell \<Rightarrow> cell" where
  "to_numeric_coerce parse None = None"
| "to_numeric_coerce parse (Some (Num x)) = Some (Num x)"
| "to_numeric_coerce parse (Some (Txt s)) = map_option Num (parse s)"
| "to_numeric_coerce parse (Some (Date t)) = Some (Num (real_of_int t))"

definition load_data ::
  "(int \<Rightarrow> int) \<Rightarrow> (string \<Rightarrow> real option) \<Rightarrow> frame \<Rightarrow> frame \<Rightarrow> frame \<Rightarrow> frame
     \<Rightarrow> error + data_manager" where
  "load_data year_of parse monitoring weather soil yields =
     (if ''date'' \<notin> set (columns monitoring) \<or> ''date'' \<notin> set (columns weather)
         \<or> ''date'' \<notin> set (columns yields)
      then Inl (ValueError ''parse_dates'')
      else
        and_then (getcol yields ''date'') (\<lambda>d.
        and_then (dt_year year_of d) (\<lambda>annee.
        let yh = setcol yields ''annee'' annee in
        and_then (getcol yh ''rendement_final'') (\<lambda>final.
        Inr \<lparr> monitoring_data = monitoring, weather_data = weather, soil_data = soil,
              yield_history = setcol yh ''rendement'' (map (to_numeric_coerce parse) final) \<rparr>))))"

text \<open>
  \<open>prepare_features\<close>: the two \<open>sort_index\<close> calls change nothing, the monitoring rows
  are joined to the weather rows by \<open>merge_asof\<close> and to the soil rows by a left merge, and
  the result is forward-filled when a null is left in it. The printed warning is left out.
\<close>

definition prepare_features :: "data_manager \<Rightarrow> error + frame" where
  "prepare_features dm =
     and_then (merge_asof (monitoring_data dm) (weather_data dm)) (\<lambda>data.
     and_then (pd_merge data (soil_data dm) [''parcelle_id''] Left) (\<lambda>data.
     Inr (if count_missing data > 0 then ffill data else data)))"

text \<open>
  \<open>_enrich_with_yield_history\<close>: a left merge with three columns of the yield history on
  \<open>parcelle_id\<close>, and the mean of \<open>rendement\<close> per parcel over the merged rows.
\<close>

definition enrich_with_yield_history :: "data_manager \<Rightarrow> frame \<Rightarrow> error + frame" where
  "enrich_with_yield_history dm data =
     and_then (select (yield_history dm) [''parcelle_id'', ''annee'', ''rendement'']) (\<lambda>hist.
     and_then (pd_merge data hist [''parcelle_id''] Left) (\<lambda>enriched_data.
     and_then (getcol enriched_data ''parcelle_id'') (\<lambda>keys.
     and_then (getcol enriched_data ''rendement'') (\<lambda>rendement.
     and_then (as_floats rendement) (\<lambda>xs.
     Inr (setcol enriched_data ''rendement_moyen''
            (floats (groupby_transform_mean keys xs))))))))"

text \<open>
  \<open>calculate_risk_metrics\<close> assigns two columns of the caller's table in place and returns
  three columns of it. The value is the caller's table after the call (also when a later
  line raises) and the outcome. The two right-hand sides are named first.
\<close>

definition risque_hydrique_of :: "real option list \<Rightarrow> real option list \<Rightarrow> real option list" where
  "risque_hydrique_of stress capacite = map2 fdiv stress (map (\<lambda>c. fadd c (Some eps)) capacite)"

definition risque_global_of ::
  "real option list \<Rightarrow> real option list \<Rightarrow> real option list \<Rightarrow> real option list" where
  "risque_global_of rh ndvi rm =
     map2 fadd
       (map2 fadd (map (fmul (Some (5 / 10))) rh)
                  (map (\<lambda>v. fmul (Some (3 / 10)) (fsub (Some 1) v)) ndvi))
       (map (\<lambda>m. fmul (Some (2 / 10))
                    (fsub (Some 1) (fdiv m (fadd (nanmax rm) (Some eps))))) rm)"

definition calculate_risk_metrics :: "frame \<Rightarrow> frame \<times> (error + frame)" where
  "calculate_risk_metrics data =
     (case and_then (getcol data ''stress_hydrique'') (\<lambda>stress.
           and_then (getcol data ''capacite_retention_eau'') (\<lambda>capacite.
           and_then (as_floats capacite) (\<lambda>cap.
           and_then (as_floats stress) (\<lambda>sh.
           Inr (risque_hydrique_of sh cap))))) of
        Inl e \<Rightarrow> (data, Inl e)
      | Inr risque_hydrique \<Rightarrow>
          (let data1 = setcol data ''risque_hydrique'' (floats risque_hydrique) in
           case and_then (getcol data1 ''risque_hydrique'') (\<lambda>rh_col.
                and_then (as_floats rh_col) (\<lambda>rh.
                and_then (getcol data1 ''ndvi'') (\<lambda>ndvi_col.
                and_then (as_floats ndvi_col) (\<lambda>ndvi.
                and_then (getcol data1 ''rendement_moyen'') (\<lambda>rm_col.
                and_then (as_floats rm_col) (\<lambda>rm.
                Inr (risque_global_of rh ndvi rm))))))) of
             Inl e \<Rightarrow> (data1, Inl e)
           | Inr risque_global \<Rightarrow>
               (let data2 = setcol data1 ''risque_global'' (floats risque_global)
                in (data2, select data2 [''parcelle_id'', ''risque_hydrique'', ''risque_global'']))))"

subsection \<open>Library routines used by the pattern analysis\<close>

text \<open>
  \<open>Series.interpolate(method="linear", limit_direction="both")\<close>: pandas interpolates over
  the positions of the non-null cells with \<open>np.interp\<close>, which holds the first and the last
  non-null value flat outside their range; a column with no non-null cell is returned as it is.
  \<open>interp_from a g\<close> has seen the non-null value \<open>a\<close> followed by \<open>g\<close> nulls.
\<close>

fun interp_from :: "real \<Rightarrow> nat \<Rightarrow> real option list \<Rightarrow> real list" where
  "interp_from a g [] = replicate g a"
| "interp_from a g (None # xs) = interp_from a (Suc g) xs"
| "interp_from a g (Some b # xs) =
     map (\<lambda>k. a + (b - a) * real k / real (Suc g)) [1 ..< Suc g] @ b # interp_from b 0 xs"

definition interpolate :: "real option list \<Rightarrow> real option list" where
  "interpolate xs =
     (case dropWhile (\<lambda>x. x = None) xs of
        [] \<Rightarrow> xs
      | None # rest \<Rightarrow> xs
      | Some b # rest \<Rightarrow>
          map Some (replicate (length (takeWhile (\<lambda>x. x = None) xs)) b @ b # interp_from b 0 rest))"

definition fillna_value :: "real option \<Rightarrow> real option list \<Rightarrow> real option list" where
  "fillna_value v xs = map (\<lambda>x. case x of None \<Rightarrow> v | Some y \<Rightarrow> Some y) xs"

text \<open>\<open>Series.std()\<close>: the sample standard deviation (\<open>ddof = 1\<close>) of the non-null cells.\<close>

definition pd_std :: "real option list \<Rightarrow> real option" where
  "pd_std xs =
     (let vs = valid xs in
      if length vs < 2 then None
      else Some (sqrt (sum_list (map (\<lambda>v. (v - np_mean vs)\<^sup>2) vs) / real (length vs - 1))))"

text \<open>
  \<open>np.polyfit(range(len(ys)), ys, 1)[0]\<close>: the slope of the least-squares line through
  the points \<open>(0, ys[0]), (1, ys[1]), ...\<close>. numpy refuses an empty vector
  (\<open>TypeError\<close>) and fails on a single point, where the scaled design matrix is not
  finite (\<open>LinAlgError\<close>). For two points or more the closed form is the least-squares
  solution.
\<close>

definition polyfit_slope :: "real list \<Rightarrow> error + real" where
  "polyfit_slope ys =
     (let n = real (length ys);
          xs = map real [0 ..< length ys];
          sx = sum_list xs;
          sy = sum_list ys;
          sxx = sum_list (map (\<lambda>x. x * x) xs);
          sxy = sum_list (map2 (\<lambda>x y. x * y) xs ys)
      in if ys = [] then Inl TypeError
         else if length ys = 1 then Inl LinAlgError
         else Inr ((n * sxy - sx * sy) / (n * sxx - sx * sx)))"

text \<open>
  \<open>statsmodels.tsa.seasonal.seasonal_decompose(x, model="additive", period=p)\<close> is library
  code; the model follows the library's implementation. It refuses missing values and a
  series shorter than two periods. The trend is the centred moving average
  (\<open>convolution_filter\<close> with two sides, valid part padded with NaN), the seasonal
  component repeats the centred means of the detrended values at each position of the
  period, and the residual is what is left.
\<close>

record decomposition =
  trend :: "real option list"
  seasonal :: "real option list"
  resid :: "real option list"

definition seasonal_filter :: "nat \<Rightarrow> real list" where
  "seasonal_filter period =
     (if even period
      then map (\<lambda>w. w / real period) ([1 / 2] @ replicate (period - 1) 1 @ [1 / 2])
      else replicate period (1 / real period))"

definition convolution_filter :: "real list \<Rightarrow> real list \<Rightarrow> real option list" where
  "convolution_filter x filt =
     (let l = length filt;
          trim_head = (l + 1) div 2 - 1;
          trim_tail = (l + 1) div 2 - l mod 2;
          conv = map (\<lambda>k. sum_list (map (\<lambda>j. filt ! j * x ! (k + l - 1 - j)) [0 ..< l]))
                   [0 ..< length x + 1 - l]
      in replicate trim_head None @ map Some conv @ replicate trim_tail None)"

definition seasonal_mean :: "real option list \<Rightarrow> nat \<Rightarrow> real option list" where
  "seasonal_mean x period =
     map (\<lambda>i. nanmean (map (\<lambda>j. x ! j) (filter (\<lambda>j. j mod period = i) [0 ..< length x])))
       [0 ..< period]"

definition center :: "real option list \<Rightarrow> real option list" where
  "center avgs =
     (if list_all (\<lambda>a. a \<noteq> None) avgs
      then map (\<lambda>a. fsub a (Some (np_mean (valid avgs)))) avgs
      else map (\<lambda>a. None) avgs)"

definition seasonal_decompose :: "real option list \<Rightarrow> nat \<Rightarrow> error + decomposition" where
  "seasonal_decompose x period =
     (if \<not> list_all (\<lambda>v. v \<noteq> None) x then Inl (ValueError ''missing values'')
      else if length x < 2 * period then Inl (ValueError ''2 complete cycles'')
      else
        (let tr = convolution_filter (valid x) (seasonal_filter period);
             detrended = map2 fsub x tr;
             period_averages = center (seasonal_mean detrended period);
             seas = map (\<lambda>i. period_averages ! (i mod period)) [0 ..< length x]
         in Inr \<lparr> trend = tr, seasonal = seas, resid = map2 fsub detrended seas \<rparr>))"

subsection \<open>analyze_yield_patterns\<close>

text \<open>
  \<open>analyze_yield_patterns\<close> prints a message and returns \<open>None\<close>, or returns a
  dictionary, or raises. The value is what was printed and the outcome.
\<close>

datatype notice = No_data_found | Not_enough_data | Filling_missing_values

datatype pyval = Series "real option list" | Float "real option"

type_synonym patterns = "(string \<times> pyval) list"

text \<open>
  The imputation of lines 97-100: when the column has a null, it is interpolated and what is
  still null is filled with the mean of the column.
\<close>

definition impute :: "real option list \<Rightarrow> real option list" where
  "impute rendement =
     (if length (filter (\<lambda>x. x = None) rendement) > 0
      then (let r = interpolate rendement in fillna_value (nanmean r) r)
      else rendement)"

definition null_count :: "series \<Rightarrow> nat" where
  "null_count s = length (filter (\<lambda>x. x = None) s)"

text \<open>Lines 96-122, on the parcel's rows \<open>history\<close> and their column \<open>rendement\<close>.\<close>

definition decompose_history :: "frame \<Rightarrow> series \<Rightarrow> error + patterns" where
  "decompose_history history col =
     and_then (if null_count col > 0 then as_floats col else Inr []) (\<lambda>u.
     and_then (getcol history ''date'') (\<lambda>dates.
     and_then (as_floats col) (\<lambda>rendement.
     and_then (seasonal_decompose (impute rendement) 12) (\<lambda>decomposition.
     and_then (polyfit_slope (valid (trend decomposition))) (\<lambda>slope.
     Inr [(''trend'', Series (trend decomposition)),
          (''seasonal'', Series (seasonal decomposition)),
          (''resid'', Series (resid decomposition)),
          (''slope'', Float (Some slope)),
          (''variation_mean'',
             Float (fdiv (pd_std (resid decomposition)) (nanmean (impute rendement))))])))))"

definition analyze_yield_patterns ::
  "data_manager \<Rightarrow> val \<Rightarrow> notice list \<times> (error + patterns option)" where
  "analyze_yield_patterns dm parcelle_id =
     (case getcol (yield_history dm) ''parcelle_id'' of
        Inl e \<Rightarrow> ([], Inl e)
      | Inr ids \<Rightarrow>
          (let history = mask_rows (\<lambda>i. ids ! i = Some parcelle_id) (yield_history dm) in
           if nrows history = 0 then ([No_data_found], Inr None)
           else if nrows history < 3 then ([Not_enough_data], Inr None)
           else
             (case getcol history ''rendement'' of
                Inl e \<Rightarrow> ([], Inl e)
              | Inr col \<Rightarrow>
                  (if null_count col > 0 then [Filling_missing_values] else [],
                   and_then (decompose_history history col) (\<lambda>p. Inr (Some p))))))"

section \<open>analyzer.py\<close>

text \<open>
  \<open>_calculate_stability_index\<close>: the slope of the least-squares line over the standard
  deviation plus \<open>1e-5\<close>.
\<close>

definition calculate_stability_index :: "real list \<Rightarrow> error + real" where
  "calculate_stability_index yield_series =
     and_then (polyfit_slope yield_series) (\<lambda>slope.
     Inr (slope / (np_std yield_series + 1 / 10 ^ 5)))"

text \<open>
  The table \<open>combined_data\<close> of \<open>analyze_yield_factors\<close> as it stands after line 50: the
  parcel's monitoring rows joined to the weather on equal dates, to the parcel's soil row,
  and to the yield history on parcel and date, with \<open>rendement\<close> resolved and the rows
  without a yield dropped. The fit of the regression that follows is not modelled.
\<close>

definition combined_data :: "data_manager \<Rightarrow> val \<Rightarrow> error + frame" where
  "combined_data dm parcelle_id =
     and_then (getcol (monitoring_data dm) ''parcelle_id'') (\<lambda>ids.
     let parcelle_data = mask_rows (\<lambda>i. ids ! i = Some parcelle_id) (monitoring_data dm) in
     and_then (getcol (soil_data dm) ''parcelle_id'') (\<lambda>soil_ids.
     let soil = mask_rows (\<lambda>i. soil_ids ! i = Some parcelle_id) (soil_data dm) in
     and_then (pd_merge parcelle_data (weather_data dm) [''date''] Inner) (\<lambda>cd1.
     and_then (pd_merge cd1 soil [''parcelle_id''] Left) (\<lambda>cd2.
     and_then (select (yield_history dm)
                 [''parcelle_id'', ''date'', ''rendement_estime'', ''rendement_final'']) (\<lambda>yields.
     and_then (pd_merge cd2 yields [''parcelle_id'', ''date''] Left) (\<lambda>cd3.
     and_then (getcol cd3 ''rendement_final'') (\<lambda>final.
     and_then (getcol cd3 ''rendement_estime'') (\<lambda>estime.
     dropna_subset ''rendement''
       (setcol cd3 ''rendement'' (fillna_with final estime))))))))))"

text \<open>
  \<open>_detect_yield_breakpoints\<close>: the loop \<open>for i in range(1, len(yield_series) - 1)\<close>
  appends \<open>i\<close> when \<open>abs(yield_series[i] - yield_series[i - 1]) > np.std(yield_series)\<close>.
\<close>

definition detect_yield_breakpoints :: "real list \<Rightarrow> nat list" where
  "detect_yield_breakpoints yield_series =
     filter (\<lambda>i. \<bar>yield_series ! i - yield_series ! (i - 1)\<bar> > np_std yield_series)
       [1 ..< length yield_series - 1]"

section \<open>Well-formed tables, views of results and example data\<close>

text \<open>
  In a pandas table every column has as many cells as the table has rows.
\<close>

definition wf_frame :: "frame \<Rightarrow> bool" where
  "wf_frame f = list_all (\<lambda>(c, s). length s = nrows f) f"

text \<open>
  The series that \<open>analyze_yield_patterns\<close> hands to the decomposition: the column
  \<open>rendement\<close> of the parcel's rows after the imputation.
\<close>

definition imputed_series :: "data_manager \<Rightarrow> val \<Rightarrow> error + real option list" where
  "imputed_series dm parcelle_id =
     and_then (getcol (yield_history dm) ''parcelle_id'') (\<lambda>ids.
     and_then (getcol (mask_rows (\<lambda>i. ids ! i = Some parcelle_id) (yield_history dm))
                 ''rendement'') (\<lambda>col.
     and_then (as_floats col) (\<lambda>rendement. Inr (impute rendement))))"

text \<open>
  The historical mean yield of a parcel, as the spec words it: the mean of the non-null
  yields that the yield history records for the parcel (\<open>hk\<close> is the history's column
  \<open>parcelle_id\<close>, \<open>hr\<close> its column \<open>rendement\<close>).
\<close>

definition history_mean :: "series \<Rightarrow> series \<Rightarrow> val \<Rightarrow> real option" where
  "history_mean hk hr k =
     nanmean (map (\<lambda>j. to_float (hr ! j)) (filter (\<lambda>j. hk ! j = Some k) [0 ..< length hk]))"

text \<open>
  The row pairs of a left join on one key column: every left row with each right row of
  the same key, or once with no partner.
\<close>

definition left_pairs :: "series \<Rightarrow> series \<Rightarrow> nat \<Rightarrow> (nat \<times> nat option) list" where
  "left_pairs fk hk n =
     concat (map (\<lambda>i. let ms = filter (\<lambda>j. hk ! j = fk ! i) [0 ..< length hk]
                        in if ms = [] then [(i, None)] else map (\<lambda>j. (i, Some j)) ms)
               [0 ..< n])"

text \<open>The keys of the dictionary that \<open>analyze_yield_patterns\<close> returns.\<close>

definition result_keys :: "error + patterns option \<Rightarrow> error + string list option" where
  "result_keys r = map_sum id (map_option (map fst)) r"

text \<open>
  A yield history with 24 records for parcel P001, 2 for P002 and 3 for P003.
\<close>

definition example_history :: frame where
  "example_history =
     [(''parcelle_id'', replicate 24 (Some (Txt ''P001'')) @ replicate 2 (Some (Txt ''P002''))
                          @ replicate 3 (Some (Txt ''P003''))),
      (''date'', map (\<lambda>i. Some (Date (int i))) [0 ..< 29]),
      (''rendement'', map (\<lambda>i. Some (Num (real i))) [0 ..< 29])]"

definition example_manager :: data_manager where
  "example_manager =
     \<lparr> monitoring_data = [], weather_data = [], soil_data = [], yield_history = example_history \<rparr>"

text \<open>Two fused observations, the first with a retention capacity of zero; and a fused
  observation with a negative retention capacity.\<close>

definition example_fused :: frame where
  "example_fused =
     [(''parcelle_id'', [Some (Txt ''P001''), Some (Txt ''P002'')]),
      (''stress_hydrique'', [Some (Num 1), Some (Num 2)]),
      (''capacite_retention_eau'', [Some (Num 0), Some (Num 3)]),
      (''ndvi'', [Some (Num (1 / 2)), Some (Num (1 / 4))]),
      (''rendement_moyen'', [Some (Num 4), Some (Num 5)])]"

definition negative_capacity :: frame where
  "negative_capacity =
     [(''parcelle_id'', [Some (Txt ''P001'')]),
      (''stress_hydrique'', [Some (Num 1)]),
      (''capacite_retention_eau'', [Some (Num (- 1))]),
      (''ndvi'', [Some (Num (1 / 2))]),
      (''rendement_moyen'', [Some (Num 4)])]"

text \<open>
  Four small source tables. Two parcels are monitored on the first date, so the monitoring
  table has more rows per date than the weather table. In the yield history parcel P001 has
  an estimate and no final yield for the first date and neither for the second; parcel P002
  has both for both dates. \<open>example_loaded\<close> is the manager after \<open>load_data\<close>,
  \<open>example_features\<close> what \<open>prepare_features\<close> returns for it, \<open>example_enriched\<close>
  what \<open>_enrich_with_yield_history\<close> makes of that, and \<open>example_combined_data\<close> the
  table that \<open>analyze_yield_factors\<close> fuses for parcel P001.
\<close>

definition example_monitoring :: frame where
  "example_monitoring =
     [(''parcelle_id'', [Some (Txt ''P001''), Some (Txt ''P002''), Some (Txt ''P001'')]),
      (''date'', [Some (Date 1), Some (Date 1), Some (Date 2)]),
      (''ndvi'', [Some (Num (1 / 2)), Some (Num (1 / 4)), Some (Num (3 / 4))]),
      (''stress_hydrique'', [Some (Num 1), Some (Num 2), Some (Num 3)])]"

definition example_weather :: frame where
  "example_weather =
     [(''date'', [Some (Date 1), Some (Date 2)]),
      (''temperature'', [Some (Num 10), Some (Num 20)])]"

definition example_soil :: frame where
  "example_soil =
     [(''parcelle_id'', [Some (Txt ''P001''), Some (Txt ''P002'')]),
      (''capacite_retention_eau'', [Some (Num 3), Some (Num 4)])]"

definition example_yields :: frame where
  "example_yields =
     [(''parcelle_id'', [Some (Txt ''P001''), Some (Txt ''P001''), Some (Txt ''P002''),
                         Some (Txt ''P002'')]),
      (''date'', [Some (Date 1), Some (Date 2), Some (Date 1), Some (Date 2)]),
      (''rendement_estime'', [Some (Num 3), None, Some (Num 5), Some (Num 7)]),
      (''rendement_final'', [None, None, Some (Num 6), Some (Num 8)])]"

definition example_year_of :: "int \<Rightarrow> int" where
  "example_year_of t = 1970"

definition example_parse :: "string \<Rightarrow> real option" where
  "example_parse s = None"

definition example_loaded :: data_manager where
  "example_loaded =
     \<lparr> monitoring_data = example_monitoring, weather_data = example_weather,
       soil_data = example_soil,
       yield_history = example_yields @
         [(''annee'', [Some (Num 1970), Some (Num 1970), Some (Num 1970), Some (Num 1970)]),
          (''rendement'', [None, None, Some (Num 6), Some (Num 8)])] \<rparr>"

definition example_features :: frame where
  "example_features =
     [(''parcelle_id'', [Some (Txt ''P001''), Some (Txt ''P002''), Some (Txt ''P001'')]),
      (''date_x'', [Some (Date 1), Some (Date 1), Some (Date 2)]),
      (''ndvi'', [Some (Num (1 / 2)), Some (Num (1 / 4)), Some (Num (3 / 4))]),
      (''stress_hydrique'', [Some (Num 1), Some (Num 2), Some (Num 3)]),
      (''date_y'', [Some (Date 1), Some (Date 2), Some (Date 2)]),
      (''temperature'', [Some (Num 10), Some (Num 20), Some (Num 20)]),
      (''capacite_retention_eau'', [Some (Num 3), Some (Num 4), Some (Num 3)])]"

definition example_merged :: frame where
  "example_merged =
     [(''parcelle_id'', [Some (Txt ''P001''), Some (Txt ''P001''), Some (Txt ''P002''),
                         Some (Txt ''P002''), Some (Txt ''P001''), Some (Txt ''P001'')]),
      (''date_x'', [Some (Date 1), Some (Date 1), Some (Date 1), Some (Date 1), Some (Date 2),
                    Some (Date 2)]),
      (''ndvi'', [Some (Num (1 / 2)), Some (Num (1 / 2)), Some (Num (1 / 4)),
                  Some (Num (1 / 4)), Some (Num (3 / 4)), Some (Num (3 / 4))]),
      (''stress_hydrique'', [Some (Num 1), Some (Num 1), Some (Num 2), Some (Num 2),
                             Some (Num 3), Some (Num 3)]),
      (''date_y'', [Some (Date 1), Some (Date 1), Some (Date 2), Some (Date 2), Some (Date 2),
                    Some (Date 2)]),
      (''temperature'', [Some (Num 10), Some (Num 10), Some (Num 20), Some (Num 20),
                         Some (Num 20), Some (Num 20)]),
      (''capacite_retention_eau'', [Some (Num 3), Some (Num 3), Some (Num 4), Some (Num 4),
                                    Some (Num 3), Some (Num 3)]),
      (''annee'', [Some (Num 1970), Some (Num 1970), Some (Num 1970), Some (Num 1970),
                   Some (Num 1970), Some (Num 1970)]),
      (''rendement'', [None, None, Some (Num 6), Some (Num 8), None, None])]"

definition example_enriched :: frame where
  "example_enriched =
     example_merged @ [(''rendement_moyen'', [None, None, Some (Num 7), Some (Num 7), None, None])]"

definition example_combined_data :: frame where
  "example_combined_data =
     [(''parcelle_id'', [Some (Txt ''P001'')]),
      (''date'', [Some (Date 1)]),
      (''ndvi'', [Some (Num (1 / 2))]),
      (''stress_hydrique'', [Some (Num 1)]),
      (''temperature'', [Some (Num 10)]),
      (''capacite_retention_eau'', [Some (Num 3)]),
      (''rendement_estime'', [Some (Num 3)]),
      (''rendement_final'', [None]),
      (''rendement'', [Some (Num 3)])]"

section \<open>Facts about tables\<close>

lemma and_then_Inr [simp]: "and_then (Inr x) f = f x"
  by (simp add: and_then_def)

lemma and_then_Inl [simp]: "and_then (Inl e) f = Inl e"
  by (simp add: and_then_def)

lemma and_then_eq_Inr:
  "(and_then m f = Inr y) = (\<exists>x. m = Inr x \<and> f x = Inr y)"
  by (cases m) simp_all

lemma getcol_eq_Inr: "(getcol f c = Inr s) = (map_of f c = Some s)"
  by (simp add: getcol_def split: option.splits)

lemma map_of_setcol: "map_of (setcol f c s) c' = (if c' = c then Some s else map_of f c')"
  by (simp add: setcol_def update_conv')

lemma set_update_subset: "set (AList.update c s f) \<subseteq> insert (c, s) (set f)"
  by (induction f) auto

lemma in_columns_iff: "(c \<in> set (columns f)) = (map_of f c \<noteq> None)"
  by (simp add: columns_def map_of_eq_None_iff)

lemma map_of_take_rows:
  "map_of (take_rows idx f) c = map_option (\<lambda>s. map (\<lambda>i. s ! i) idx) (map_of f c)"
  by (induction f) (auto simp: take_rows_def)

lemma nrows_take_rows: "f \<noteq> [] \<Longrightarrow> nrows (take_rows idx f) = length idx"
  by (cases f) (auto simp: take_rows_def nrows_def)

lemma nrows_setcol:
  "f \<noteq> [] \<Longrightarrow> length s = nrows f \<Longrightarrow> nrows (setcol f c s) = nrows f"
  by (cases f) (auto simp: setcol_def nrows_def)

lemma count_positions:
  "length (filter (\<lambda>i. s ! i = v) [0 ..< length s]) = length (filter (\<lambda>c. c = v) s)"
proof -
  have "filter (\<lambda>c. c = v) s = filter (\<lambda>c. c = v) (map (\<lambda>i. s ! i) [0 ..< length s])"
    by (simp add: map_nth)
  also have "\<dots> = map (\<lambda>i. s ! i) (filter (\<lambda>i. s ! i = v) [0 ..< length s])"
    by (simp add: filter_map comp_def)
  finally show ?thesis by simp
qed

lemma wf_frame_col: "wf_frame f \<Longrightarrow> map_of f c = Some s \<Longrightarrow> length s = nrows f"
  by (auto simp: wf_frame_def list_all_iff dest!: map_of_SomeD)

lemma wf_frame_same_length:
  assumes "\<forall>(c, s) \<in> set f. length s = n"
  shows "wf_frame f" and "f \<noteq> [] \<Longrightarrow> nrows f = n"
  using assms
  by (cases f; auto simp: wf_frame_def nrows_def list_all_iff)+

lemma to_float_Num: "to_float (map_option Num x) = x"
  by (cases x) simp_all

lemma is_numeric_Num: "is_numeric (map_option Num x)"
  by (cases x) simp_all

lemma as_floats_floats [simp]: "as_floats (floats xs) = Inr xs"
  by (simp add: as_floats_def floats_def list_all_iff is_numeric_Num comp_def to_float_Num)

lemma length_as_floats: "as_floats s = Inr xs \<Longrightarrow> length xs = length s"
  by (auto simp: as_floats_def split: if_splits)

lemma to_float_numeric: "c \<noteq> None \<Longrightarrow> is_numeric c \<Longrightarrow> \<exists>y. to_float c = Some y"
  by (cases c rule: is_numeric.cases) auto

lemma valid_map_Some [simp]: "valid (map Some xs) = xs"
  by (induction xs) (auto simp: valid_def)

lemma valid_map_Some_comp [simp]: "valid (map (Some \<circ> f) xs) = map f xs"
  by (induction xs) (auto simp: valid_def)

lemma valid_append [simp]: "valid (xs @ ys) = valid xs @ valid ys"
  by (simp add: valid_def)

lemma valid_replicate_None [simp]: "valid (replicate n None) = []"
  by (induction n) (auto simp: valid_def)

lemma valid_all_Some: "list_all (\<lambda>v. v \<noteq> None) x \<Longrightarrow> length (valid x) = length x"
  by (induction x) (auto simp: valid_def)

lemma valid_nth_mem: "i < length xs \<Longrightarrow> xs ! i = Some v \<Longrightarrow> v \<in> set (valid xs)"
proof (induction xs arbitrary: i)
  case Nil
  then show ?case by simp
next
  case (Cons x xs)
  then show ?case
    by (cases i) (auto simp: valid_def)
qed

lemma upt_0_1: "[0 ..< 1] = [0::nat]"
  by (simp add: upt_rec)

lemma upt_0_2: "[0 ..< 2] = [0, 1::nat]"
  by (simp add: upt_rec)

lemma upt_0_3: "[0 ..< 3] = [0, 1, 2::nat]"
  by (simp add: upt_rec)

lemma upt_0_4: "[0 ..< 4] = [0, 1, 2, 3::nat]"
  by (simp add: upt_rec)

lemma upt_0_6: "[0 ..< 6] = [0, 1, 2, 3, 4, 5::nat]"
  by (simp add: upt_rec)

lemma valid_Nil [simp]: "valid [] = []"
  by (simp add: valid_def)

section \<open>Fusion\<close>

subsection \<open>The joins produce well-formed tables\<close>

lemma join_columns_lengths:
  assumes "join_columns on left right pairs = Inr f" and "(c, s) \<in> set f"
  shows "length s = length pairs"
  using assms
  by (auto simp: join_columns_def Let_def split: if_splits)

lemma pd_merge_lengths:
  assumes "pd_merge left right on how = Inr f"
  shows "\<exists>n. \<forall>(c, s) \<in> set f. length s = n"
proof -
  from assms obtain pairs where "join_columns on left right pairs = Inr f"
    by (auto simp: pd_merge_def split: option.splits)
  then show ?thesis
    using join_columns_lengths by blast
qed

lemma fillna_with_nth:
  "i < length a \<Longrightarrow> i < length b \<Longrightarrow>
     fillna_with a b ! i = (case a ! i of None \<Rightarrow> b ! i | Some v \<Rightarrow> Some v)"
  by (simp add: fillna_with_def)

lemma dropna_subset_Inr:
  assumes "dropna_subset c f = Inr g"
  shows "\<exists>s. map_of f c = Some s \<and> g = take_rows (filter (\<lambda>i. s ! i \<noteq> None) [0 ..< nrows f]) f"
  using assms
  by (auto simp: dropna_subset_def and_then_eq_Inr getcol_eq_Inr mask_rows_def)

subsection \<open>The example, evaluated\<close>

lemma example_load:
  "load_data example_year_of example_parse example_monitoring example_weather example_soil
     example_yields = Inr example_loaded"
  by (simp add: load_data_def columns_def example_monitoring_def example_weather_def
        example_yields_def example_loaded_def getcol_def setcol_def dt_year_def Let_def
        example_year_of_def example_parse_def)

lemma example_asof:
  "merge_asof example_monitoring example_weather =
     Inr [(''parcelle_id'', [Some (Txt ''P001''), Some (Txt ''P002''), Some (Txt ''P001'')]),
          (''date_x'', [Some (Date 1), Some (Date 1), Some (Date 2)]),
          (''ndvi'', [Some (Num (1 / 2)), Some (Num (1 / 4)), Some (Num (3 / 4))]),
          (''stress_hydrique'', [Some (Num 1), Some (Num 2), Some (Num 3)]),
          (''date_y'', [Some (Date 1), Some (Date 2), Some (Date 2)]),
          (''temperature'', [Some (Num 10), Some (Num 20), Some (Num 20)])]"
  by (simp add: merge_asof_def join_columns_def asof_nearest_def columns_def nrows_def
        example_monitoring_def example_weather_def Let_def upt_0_3 upt_0_2)

lemma example_prepare: "prepare_features example_loaded = Inr example_features"
  by (simp add: prepare_features_def example_loaded_def example_asof)
     (simp add: pd_merge_def join_columns_def key_at_def columns_def nrows_def
        count_missing_def example_soil_def example_features_def Let_def upt_0_3 upt_0_2)

lemma example_history_columns:
  "select (yield_history example_loaded) [''parcelle_id'', ''annee'', ''rendement''] =
     Inr [(''parcelle_id'', [Some (Txt ''P001''), Some (Txt ''P001''), Some (Txt ''P002''),
                             Some (Txt ''P002'')]),
          (''annee'', [Some (Num 1970), Some (Num 1970), Some (Num 1970), Some (Num 1970)]),
          (''rendement'', [None, None, Some (Num 6), Some (Num 8)])]"
  by (simp add: example_loaded_def example_yields_def getcol_def)

lemma example_merge_history:
  "pd_merge example_features
     [(''parcelle_id'', [Some (Txt ''P001''), Some (Txt ''P001''), Some (Txt ''P002''),
                         Some (Txt ''P002'')]),
      (''annee'', [Some (Num 1970), Some (Num 1970), Some (Num 1970), Some (Num 1970)]),
      (''rendement'', [None, None, Some (Num 6), Some (Num 8)])] [''parcelle_id''] Left =
   Inr example_merged"
  by (simp add: pd_merge_def join_columns_def key_at_def columns_def nrows_def
        example_features_def example_merged_def Let_def upt_0_3 upt_0_4)

lemma example_enrich:
  "enrich_with_yield_history example_loaded example_features = Inr example_enriched"
proof -
  have "enrich_with_yield_history example_loaded example_features =
          and_then (getcol example_merged ''parcelle_id'') (\<lambda>keys.
          and_then (getcol example_merged ''rendement'') (\<lambda>rendement.
          and_then (as_floats rendement) (\<lambda>xs.
          Inr (setcol example_merged ''rendement_moyen''
            (floats (groupby_transform_mean keys xs))))))"
    by (simp only: enrich_with_yield_history_def example_history_columns and_then_Inr
          example_merge_history)
  also have "\<dots> = Inr example_enriched"
    by (simp add: example_enriched_def example_merged_def getcol_def as_floats_def setcol_def
          floats_def groupby_transform_mean_def nanmean_def np_mean_def valid_def upt_0_6)
  finally show ?thesis .
qed

lemma example_parcelle_data:
  "mask_rows (\<lambda>i. [Some (Txt ''P001''), Some (Txt ''P002''), Some (Txt ''P001'')] ! i
                  = Some (Txt ''P001'')) example_monitoring =
     [(''parcelle_id'', [Some (Txt ''P001''), Some (Txt ''P001'')]),
      (''date'', [Some (Date 1), Some (Date 2)]),
      (''ndvi'', [Some (Num (1 / 2)), Some (Num (3 / 4))]),
      (''stress_hydrique'', [Some (Num 1), Some (Num 3)])]"
  by (simp add: mask_rows_def take_rows_def nrows_def example_monitoring_def upt_0_3)

lemma example_parcelle_soil:
  "mask_rows (\<lambda>i. [Some (Txt ''P001''), Some (Txt ''P002'')] ! i = Some (Txt ''P001''))
     example_soil =
     [(''parcelle_id'', [Some (Txt ''P001'')]), (''capacite_retention_eau'', [Some (Num 3)])]"
  by (simp add: mask_rows_def take_rows_def nrows_def example_soil_def upt_0_2)

lemma example_merge_weather:
  "pd_merge [(''parcelle_id'', [Some (Txt ''P001''), Some (Txt ''P001'')]),
             (''date'', [Some (Date 1), Some (Date 2)]),
             (''ndvi'', [Some (Num (1 / 2)), Some (Num (3 / 4))]),
             (''stress_hydrique'', [Some (Num 1), Some (Num 3)])]
            example_weather [''date''] Inner =
     Inr [(''parcelle_id'', [Some (Txt ''P001''), Some (Txt ''P001'')]),
          (''date'', [Some (Date 1), Some (Date 2)]),
          (''ndvi'', [Some (Num (1 / 2)), Some (Num (3 / 4))]),
          (''stress_hydrique'', [Some (Num 1), Some (Num 3)]),
          (''temperature'', [Some (Num 10), Some (Num 20)])]"
  by (simp add: pd_merge_def join_columns_def key_at_def columns_def nrows_def
        example_weather_def Let_def upt_0_2)

lemma example_merge_soil:
  "pd_merge [(''parcelle_id'', [Some (Txt ''P001''), Some (Txt ''P001'')]),
             (''date'', [Some (Date 1), Some (Date 2)]),
             (''ndvi'', [Some (Num (1 / 2)), Some (Num (3 / 4))]),
             (''stress_hydrique'', [Some (Num 1), Some (Num 3)]),
             (''temperature'', [Some (Num 10), Some (Num 20)])]
            [(''parcelle_id'', [Some (Txt ''P001'')]), (''capacite_retention_eau'', [Some (Num 3)])]
            [''parcelle_id''] Left =
     Inr [(''parcelle_id'', [Some (Txt ''P001''), Some (Txt ''P001'')]),
          (''date'', [Some (Date 1), Some (Date 2)]),
          (''ndvi'', [Some (Num (1 / 2)), Some (Num (3 / 4))]),
          (''stress_hydrique'', [Some (Num 1), Some (Num 3)]),
          (''temperature'', [Some (Num 10), Some (Num 20)]),
          (''capacite_retention_eau'', [Some (Num 3), Some (Num 3)])]"
  by (simp add: pd_merge_def join_columns_def key_at_def columns_def nrows_def
        Let_def upt_0_2 upt_0_1)

lemma example_merge_yield:
  "pd_merge [(''parcelle_id'', [Some (Txt ''P001''), Some (Txt ''P001'')]),
             (''date'', [Some (Date 1), Some (Date 2)]),
             (''ndvi'', [Some (Num (1 / 2)), Some (Num (3 / 4))]),
             (''stress_hydrique'', [Some (Num 1), Some (Num 3)]),
             (''temperature'', [Some (Num 10), Some (Num 20)]),
             (''capacite_retention_eau'', [Some (Num 3), Some (Num 3)])]
            example_yields [''parcelle_id'', ''date''] Left =
     Inr [(''parcelle_id'', [Some (Txt ''P001''), Some (Txt ''P001'')]),
          (''date'', [Some (Date 1), Some (Date 2)]),
          (''ndvi'', [Some (Num (1 / 2)), Some (Num (3 / 4))]),
          (''stress_hydrique'', [Some (Num 1), Some (Num 3)]),
          (''temperature'', [Some (Num 10), Some (Num 20)]),
          (''capacite_retention_eau'', [Some (Num 3), Some (Num 3)]),
          (''rendement_estime'', [Some (Num 3), None]),
          (''rendement_final'', [None, None])]"
  by (simp add: pd_merge_def join_columns_def key_at_def columns_def nrows_def
        example_yields_def Let_def upt_0_2 upt_0_4)

lemma example_select_yield:
  "select (yield_history example_loaded)
     [''parcelle_id'', ''date'', ''rendement_estime'', ''rendement_final''] = Inr example_yields"
  by (simp add: example_loaded_def example_yields_def getcol_def)

lemma example_combined:
  "combined_data example_loaded (Txt ''P001'') = Inr example_combined_data"
proof -
  have ids: "getcol example_monitoring ''parcelle_id''
               = Inr [Some (Txt ''P001''), Some (Txt ''P002''), Some (Txt ''P001'')]"
    by (simp add: example_monitoring_def getcol_def)
  have soil_ids: "getcol example_soil ''parcelle_id''
               = Inr [Some (Txt ''P001''), Some (Txt ''P002'')]"
    by (simp add: example_soil_def getcol_def)
  have sel: "monitoring_data example_loaded = example_monitoring"
    "soil_data example_loaded = example_soil" "weather_data example_loaded = example_weather"
    by (simp_all add: example_loaded_def)
  have "combined_data example_loaded (Txt ''P001'') =
          dropna_subset ''rendement''
            (setcol [(''parcelle_id'', [Some (Txt ''P001''), Some (Txt ''P001'')]),
                     (''date'', [Some (Date 1), Some (Date 2)]),
                     (''ndvi'', [Some (Num (1 / 2)), Some (Num (3 / 4))]),
                     (''stress_hydrique'', [Some (Num 1), Some (Num 3)]),
                     (''temperature'', [Some (Num 10), Some (Num 20)]),
                     (''capacite_retention_eau'', [Some (Num 3), Some (Num 3)]),
                     (''rendement_estime'', [Some (Num 3), None]),
                     (''rendement_final'', [None, None])]
               ''rendement'' (fillna_with [None, None] [Some (Num 3), None]))"
    by (simp only: combined_data_def sel ids soil_ids and_then_Inr Let_def
          example_parcelle_data example_parcelle_soil example_merge_weather example_merge_soil
          example_select_yield example_merge_yield)
       (simp add: getcol_def)
  then show ?thesis
    by (simp add: getcol_def setcol_def fillna_with_def dropna_subset_def mask_rows_def
          take_rows_def nrows_def upt_0_2 example_combined_data_def)
qed

subsection \<open>The resolved yield\<close>

text \<open>
  C1 (as stated): in every row of the fused observation table \<open>rendement\<close> is
  \<open>rendement_final\<close> when that is non-null and \<open>rendement_estime\<close> otherwise, and rows
  where both are null are absent. The data manager builds its own \<open>rendement\<close> in
  \<open>load_data\<close>, from \<open>rendement_final\<close> alone, and \<open>_enrich_with_yield_history\<close> joins
  that column with a left join: in the example the first yield record has the estimate 3 and
  a null \<open>rendement\<close>, and the four rows of parcel P001 in the enriched table stay, each
  with a null \<open>rendement\<close>.
\<close>

theorem load_data_rendement_counterexample:
  "load_data example_year_of example_parse example_monitoring example_weather example_soil
     example_yields = Inr example_loaded
   \<and> map_of (yield_history example_loaded) ''rendement_final''
       = Some [None, None, Some (Num 6), Some (Num 8)]
   \<and> map_of (yield_history example_loaded) ''rendement_estime''
       = Some [Some (Num 3), None, Some (Num 5), Some (Num 7)]
   \<and> map_of (yield_history example_loaded) ''rendement''
       = Some [None, None, Some (Num 6), Some (Num 8)]
   \<and> prepare_features example_loaded = Inr example_features
   \<and> enrich_with_yield_history example_loaded example_features = Inr example_enriched
   \<and> map_of example_enriched ''parcelle_id''
       = Some [Some (Txt ''P001''), Some (Txt ''P001''), Some (Txt ''P002''),
               Some (Txt ''P002''), Some (Txt ''P001''), Some (Txt ''P001'')]
   \<and> map_of example_enriched ''rendement''
       = Some [None, None, Some (Num 6), Some (Num 8), None, None]"
  using example_load example_prepare example_enrich
  by (simp add: example_loaded_def example_yields_def example_enriched_def example_merged_def)

text \<open>
  C1 (amended): in every row of the table that \<open>analyze_yield_factors\<close> fuses
  (\<open>combined_data\<close>, lines 27-50), \<open>rendement\<close> is \<open>rendement_final\<close> when that is
  non-null and \<open>rendement_estime\<close> otherwise, it is never null, and no row has both
  \<open>rendement_final\<close> and \<open>rendement_estime\<close> null.
\<close>

theorem combined_data_rendement:
  assumes "combined_data dm parcelle_id = Inr cd"
  shows "\<exists>final estime rendement.
           map_of cd ''rendement_final'' = Some final
         \<and> map_of cd ''rendement_estime'' = Some estime
         \<and> map_of cd ''rendement'' = Some rendement
         \<and> length final = nrows cd \<and> length estime = nrows cd \<and> length rendement = nrows cd
         \<and> (\<forall>i < nrows cd.
               rendement ! i = (case final ! i of None \<Rightarrow> estime ! i | Some v \<Rightarrow> Some v)
             \<and> rendement ! i \<noteq> None
             \<and> (final ! i \<noteq> None \<or> estime ! i \<noteq> None))"
proof -
  from assms obtain l r on cd3 final estime
    where m: "pd_merge l r on Left = Inr cd3"
      and f: "map_of cd3 ''rendement_final'' = Some final"
      and e: "map_of cd3 ''rendement_estime'' = Some estime"
      and d: "dropna_subset ''rendement'' (setcol cd3 ''rendement'' (fillna_with final estime))
                = Inr cd"
    unfolding combined_data_def Let_def
    by (auto simp: and_then_eq_Inr getcol_eq_Inr)
  from pd_merge_lengths [OF m] obtain n where n: "\<forall>(c, s) \<in> set cd3. length s = n" by blast
  from f have ne: "cd3 \<noteq> []" by auto
  from n f e have lf: "length final = n" and le: "length estime = n"
    by (auto dest!: map_of_SomeD)
  have nr3: "nrows cd3 = n"
    by (rule wf_frame_same_length(2) [OF n ne])
  define r where "r = fillna_with final estime"
  have lr: "length r = n"
    by (simp add: r_def fillna_with_def lf le)
  define cd' where "cd' = setcol cd3 ''rendement'' r"
  have nr': "nrows cd' = n"
    unfolding cd'_def using ne lr nr3 by (simp add: nrows_setcol)
  have ne': "cd' \<noteq> []"
    using ne by (cases cd3) (auto simp: cd'_def setcol_def)
  define idx where "idx = filter (\<lambda>i. r ! i \<noteq> None) [0 ..< n]"
  have rcol: "map_of cd' ''rendement'' = Some r"
    by (simp add: cd'_def map_of_setcol)
  from d have "dropna_subset ''rendement'' cd' = Inr cd"
    by (simp add: cd'_def r_def)
  from dropna_subset_Inr [OF this] have cd: "cd = take_rows idx cd'"
    by (simp add: rcol nr' idx_def)
  have nr: "nrows cd = length idx"
    unfolding cd by (rule nrows_take_rows [OF ne'])
  have idx: "\<And>k. k < length idx \<Longrightarrow> idx ! k < n \<and> r ! (idx ! k) \<noteq> None"
  proof -
    fix k assume "k < length idx"
    then have "idx ! k \<in> set idx" by simp
    then show "idx ! k < n \<and> r ! (idx ! k) \<noteq> None" by (simp add: idx_def)
  qed
  define F where "F = map (\<lambda>i. final ! i) idx"
  define E where "E = map (\<lambda>i. estime ! i) idx"
  define R where "R = map (\<lambda>i. r ! i) idx"
  have cols: "map_of cd ''rendement_final'' = Some F" "map_of cd ''rendement_estime'' = Some E"
    "map_of cd ''rendement'' = Some R"
    by (simp_all add: cd map_of_take_rows cd'_def map_of_setcol f e F_def E_def R_def)
  have lens: "length F = nrows cd" "length E = nrows cd" "length R = nrows cd"
    by (simp_all add: nr F_def E_def R_def)
  have rows: "\<forall>k < nrows cd.
      R ! k = (case F ! k of None \<Rightarrow> E ! k | Some v \<Rightarrow> Some v)
      \<and> R ! k \<noteq> None \<and> (F ! k \<noteq> None \<or> E ! k \<noteq> None)"
  proof (intro allI impI)
    fix k assume "k < nrows cd"
    then have k: "k < length idx" by (simp add: nr)
    from idx [OF k] have i: "idx ! k < n" and v: "r ! (idx ! k) \<noteq> None" by simp_all
    have nth: "F ! k = final ! (idx ! k)" "E ! k = estime ! (idx ! k)" "R ! k = r ! (idx ! k)"
      using k by (simp_all add: F_def E_def R_def)
    have eq: "r ! (idx ! k) =
        (case final ! (idx ! k) of None \<Rightarrow> estime ! (idx ! k) | Some v \<Rightarrow> Some v)"
      unfolding r_def using i lf le by (simp add: fillna_with_nth)
    with v have "final ! (idx ! k) \<noteq> None \<or> estime ! (idx ! k) \<noteq> None"
      by (auto split: option.splits)
    with eq v show "R ! k = (case F ! k of None \<Rightarrow> E ! k | Some v \<Rightarrow> Some v)
      \<and> R ! k \<noteq> None \<and> (F ! k \<noteq> None \<or> E ! k \<noteq> None)"
      unfolding nth by blast
  qed
  from cols lens rows show ?thesis by blast
qed

text \<open>In the example the fused table of parcel P001 keeps the row of the first date, where
  the estimate stands in for the missing final yield, and drops the row of the second.\<close>

theorem combined_data_rendement_witness:
  "combined_data example_loaded (Txt ''P001'') = Inr example_combined_data
   \<and> (\<exists>final estime rendement.
         map_of example_combined_data ''rendement_final'' = Some final
       \<and> map_of example_combined_data ''rendement_estime'' = Some estime
       \<and> map_of example_combined_data ''rendement'' = Some rendement
       \<and> 0 < nrows example_combined_data
       \<and> final ! 0 = None \<and> rendement ! 0 = estime ! 0 \<and> rendement ! 0 \<noteq> None)"
proof -
  note c = example_combined
  have n: "0 < nrows example_combined_data"
    by (simp add: example_combined_data_def nrows_def)
  from combined_data_rendement [OF c] n show ?thesis
    by (auto simp: c example_combined_data_def)
qed

subsection \<open>The weather join\<close>

lemma filter_le_upt: "filter (\<lambda>j. j \<le> i) [0 ..< m] = [0 ..< min (Suc i) m]"
  by (induction m) (auto simp: min_def)

lemma filter_ge_upt: "filter (\<lambda>j. i \<le> j) [0 ..< m] = [i ..< m]"
  by (induction m) auto

lemma asof_nearest_range_index:
  "asof_nearest [0 ..< m] i = (if m = 0 then None else Some (min i (m - 1)))"
proof -
  have "filter (\<lambda>j. [0 ..< m] ! j \<le> i) [0 ..< m] = filter (\<lambda>j. j \<le> i) [0 ..< m]"
    by (rule filter_cong) simp_all
  then have bs: "filter (\<lambda>j. [0 ..< m] ! j \<le> i) [0 ..< m] = [0 ..< min (Suc i) m]"
    by (simp only: filter_le_upt)
  have "filter (\<lambda>j. i \<le> [0 ..< m] ! j) [0 ..< m] = filter (\<lambda>j. i \<le> j) [0 ..< m]"
    by (rule filter_cong) simp_all
  then have fs: "filter (\<lambda>j. i \<le> [0 ..< m] ! j) [0 ..< m] = [i ..< m]"
    by (simp only: filter_ge_upt)
  show ?thesis
  proof (cases "m = 0")
    case True
    then show ?thesis by (simp add: asof_nearest_def)
  next
    case False
    then have ne: "[0 ..< min (Suc i) m] \<noteq> []" by simp
    have l: "last [0 ..< min (Suc i) m] = min i (m - 1)"
      using False by (auto simp: min_def)
    show ?thesis
      using False ne l
      by (auto simp: asof_nearest_def bs fs Let_def min_def)
  qed
qed

text \<open>
  C2: \<open>prepare_features\<close> calls \<open>merge_asof\<close> with \<open>left_index=True, right_index=True\<close>,
  so the nearest match is taken on the row labels \<open>0, 1, 2, ...\<close> of the two tables and the
  dates play no part: monitoring row \<open>i\<close> receives weather row \<open>min i (m - 1)\<close>. In the
  example the second monitoring row, of date 1, receives the weather record of date 2
  although the weather table has a record of date 1.
\<close>

theorem prepare_features_joins_by_position:
  "asof_nearest [0 ..< m] i = (if m = 0 then None else Some (min i (m - 1)))
   \<and> prepare_features example_loaded = Inr example_features
   \<and> map_of (weather_data example_loaded) ''date'' = Some [Some (Date 1), Some (Date 2)]
   \<and> map_of example_features ''date_x'' = Some [Some (Date 1), Some (Date 1), Some (Date 2)]
   \<and> map_of example_features ''date_y'' = Some [Some (Date 1), Some (Date 2), Some (Date 2)]"
proof -
  have w: "map_of (weather_data example_loaded) ''date'' = Some [Some (Date 1), Some (Date 2)]"
    by (simp add: example_loaded_def example_weather_def)
  show ?thesis
    by (simp add: asof_nearest_range_index example_prepare w) (simp add: example_features_def)
qed

section \<open>Risk scoring\<close>

lemma calculate_risk_metrics_cases:
  obtains (hydrique_raised) e where "calculate_risk_metrics data = (data, Inl e)"
  | (global_raised) rh e where
      "calculate_risk_metrics data = (setcol data ''risque_hydrique'' (floats rh), Inl e)"
  | (assigned) rh rg where
      "calculate_risk_metrics data =
         (setcol (setcol data ''risque_hydrique'' (floats rh)) ''risque_global'' (floats rg),
          select (setcol (setcol data ''risque_hydrique'' (floats rh)) ''risque_global'' (floats rg))
            [''parcelle_id'', ''risque_hydrique'', ''risque_global''])"
  unfolding calculate_risk_metrics_def Let_def
  by (fastforce split: sum.splits)

lemma calculate_risk_metrics_hydrique:
  assumes "map_of data ''stress_hydrique'' = Some (floats sh)"
    and "map_of data ''capacite_retention_eau'' = Some (floats cap)"
  shows "map_of (fst (calculate_risk_metrics data)) ''risque_hydrique''
           = Some (floats (risque_hydrique_of sh cap))"
  using assms
  by (simp add: calculate_risk_metrics_def getcol_def Let_def map_of_setcol split: sum.splits)

lemma calculate_risk_metrics_assigned:
  assumes "map_of data ''stress_hydrique'' = Some (floats sh)"
    and "map_of data ''capacite_retention_eau'' = Some (floats cap)"
    and "map_of data ''ndvi'' = Some (floats ndvi)"
    and "map_of data ''rendement_moyen'' = Some (floats rm)"
  shows "fst (calculate_risk_metrics data) =
           setcol (setcol data ''risque_hydrique'' (floats (risque_hydrique_of sh cap)))
             ''risque_global''
             (floats (risque_global_of (risque_hydrique_of sh cap) ndvi rm))"
  using assms
  by (simp add: calculate_risk_metrics_def getcol_def Let_def map_of_setcol)

lemma select_three:
  assumes "map_of f a = Some x" "map_of f b = Some y" "map_of f c = Some z"
  shows "select f [a, b, c] = Inr [(a, x), (b, y), (c, z)]"
  using assms by (simp add: getcol_def)

lemma calculate_risk_metrics_result:
  assumes "map_of data ''parcelle_id'' = Some ids"
    and "map_of data ''stress_hydrique'' = Some (floats sh)"
    and "map_of data ''capacite_retention_eau'' = Some (floats cap)"
    and "map_of data ''ndvi'' = Some (floats ndvi)"
    and "map_of data ''rendement_moyen'' = Some (floats rm)"
  shows "calculate_risk_metrics data =
           (setcol (setcol data ''risque_hydrique'' (floats (risque_hydrique_of sh cap)))
              ''risque_global''
              (floats (risque_global_of (risque_hydrique_of sh cap) ndvi rm)),
            Inr [(''parcelle_id'', ids),
                 (''risque_hydrique'', floats (risque_hydrique_of sh cap)),
                 (''risque_global'',
                    floats (risque_global_of (risque_hydrique_of sh cap) ndvi rm))])"
proof -
  let ?rh = "floats (risque_hydrique_of sh cap)"
  let ?rg = "floats (risque_global_of (risque_hydrique_of sh cap) ndvi rm)"
  let ?d2 = "setcol (setcol data ''risque_hydrique'' ?rh) ''risque_global'' ?rg"
  have "select ?d2 [''parcelle_id'', ''risque_hydrique'', ''risque_global'']
          = Inr [(''parcelle_id'', ids), (''risque_hydrique'', ?rh), (''risque_global'', ?rg)]"
    by (rule select_three) (simp_all add: map_of_setcol assms(1))
  moreover have "calculate_risk_metrics data
          = (?d2, select ?d2 [''parcelle_id'', ''risque_hydrique'', ''risque_global''])"
    using assms(2-5)
    by (simp add: calculate_risk_metrics_def getcol_def Let_def map_of_setcol del: select.simps)
  ultimately show ?thesis by simp
qed

lemma risque_hydrique_of_nth:
  "i < length sh \<Longrightarrow> i < length cap \<Longrightarrow>
     risque_hydrique_of sh cap ! i = fdiv (sh ! i) (fadd (cap ! i) (Some eps))"
  by (simp add: risque_hydrique_of_def)

lemma risque_global_of_nth:
  "i < length rh \<Longrightarrow> i < length ndvi \<Longrightarrow> i < length rm \<Longrightarrow>
     risque_global_of rh ndvi rm ! i =
       fadd (fadd (fmul (Some (5 / 10)) (rh ! i))
                  (fmul (Some (3 / 10)) (fsub (Some 1) (ndvi ! i))))
            (fmul (Some (2 / 10))
                  (fsub (Some 1) (fdiv (rm ! i) (fadd (nanmax rm) (Some eps)))))"
  by (simp add: risque_global_of_def)

lemma length_risque_hydrique_of:
  "length (risque_hydrique_of sh cap) = min (length sh) (length cap)"
  by (simp add: risque_hydrique_of_def)

lemma max_list_Max: "xs \<noteq> [] \<Longrightarrow> max_list xs = Max (set xs)"
  by (induction xs rule: max_list.induct) (auto simp: max_def)

lemma nanmax_Max:
  assumes "i < length xs" and "xs ! i = Some v"
  shows "nanmax xs = Some (Max (set (valid xs)))"
proof -
  from valid_nth_mem [OF assms] have "valid xs \<noteq> []" by auto
  then show ?thesis by (simp add: nanmax_def max_list_Max)
qed

text \<open>
  C8 (as stated): whenever \<open>stress_hydrique \<ge> 0\<close>, the computed \<open>risque_hydrique\<close> is
  \<open>\<ge> 0\<close>. For a fused observation with a stress of 1 and a retention capacity of -1 the
  call returns normally, and the \<open>risque_hydrique\<close> of the returned table and of the
  caller's table is \<open>1 / (-1 + 1e-6)\<close>, which is negative.
\<close>

theorem risque_hydrique_negative_counterexample:
  "snd (calculate_risk_metrics negative_capacity) =
     Inr [(''parcelle_id'', [Some (Txt ''P001'')]),
          (''risque_hydrique'', [Some (Num (- (1000000 / 999999)))]),
          (''risque_global'',
             [Some (Num (5 / 10 * (- (1000000 / 999999)) + 3 / 10 * (1 - 1 / 2)
                         + 2 / 10 * (1 - 4 / (4 + 1 / 10 ^ 6))))])]
   \<and> map_of (fst (calculate_risk_metrics negative_capacity)) ''risque_hydrique''
       = Some [Some (Num (- (1000000 / 999999)))]
   \<and> - (1000000 / 999999) < (0::real)"
proof -
  have "calculate_risk_metrics negative_capacity =
          (setcol (setcol negative_capacity ''risque_hydrique''
                     (floats (risque_hydrique_of [Some 1] [Some (- 1)])))
             ''risque_global''
             (floats (risque_global_of (risque_hydrique_of [Some 1] [Some (- 1)])
                        [Some (1 / 2)] [Some 4])),
           Inr [(''parcelle_id'', [Some (Txt ''P001'')]),
                (''risque_hydrique'', floats (risque_hydrique_of [Some 1] [Some (- 1)])),
                (''risque_global'',
                   floats (risque_global_of (risque_hydrique_of [Some 1] [Some (- 1)])
                             [Some (1 / 2)] [Some 4]))])"
    by (rule calculate_risk_metrics_result) (simp_all add: negative_capacity_def floats_def)
  moreover have "risque_hydrique_of [Some 1] [Some (- 1)] = [Some (- (1000000 / 999999))]"
    by (simp add: risque_hydrique_of_def eps_def)
  moreover have "risque_global_of [Some (- (1000000 / 999999))] [Some (1 / 2)] [Some 4]
                   = [Some (5 / 10 * (- (1000000 / 999999)) + 3 / 10 * (1 - 1 / 2)
                            + 2 / 10 * (1 - 4 / (4 + 1 / 10 ^ 6)))]"
    by (simp add: risque_global_of_def nanmax_def valid_def eps_def)
  ultimately show ?thesis
    by (simp add: floats_def map_of_setcol)
qed

text \<open>
  C8 (amended): for every fused observation with \<open>stress_hydrique \<ge> 0\<close> and
  \<open>capacite_retention_eau > -1e-6\<close> (in particular with a capacity of zero), the divisor
  \<open>capacite_retention_eau + 1e-6\<close> is not zero and the computed
  \<open>risque_hydrique = stress_hydrique / (capacite_retention_eau + 1e-6)\<close> is \<open>\<ge> 0\<close>.
\<close>

theorem risque_hydrique_nonneg:
  assumes "map_of data ''stress_hydrique'' = Some (floats sh)"
    and "map_of data ''capacite_retention_eau'' = Some (floats cap)"
    and "i < length sh" and "i < length cap"
    and "sh ! i = Some s" and "cap ! i = Some c"
    and "0 \<le> s" and "- eps < c"
  shows "\<exists>rh. map_of (fst (calculate_risk_metrics data)) ''risque_hydrique'' = Some (floats rh)
              \<and> rh ! i = Some (s / (c + eps)) \<and> c + eps \<noteq> 0 \<and> 0 \<le> s / (c + eps)"
proof -
  from assms(8) have pos: "0 < c + eps" by simp
  have "risque_hydrique_of sh cap ! i = Some (s / (c + eps))"
    using assms(3-6) pos by (simp add: risque_hydrique_of_nth)
  moreover from pos assms(7) have "0 \<le> s / (c + eps)" by simp
  ultimately show ?thesis
    using calculate_risk_metrics_hydrique [OF assms(1,2)] pos by auto
qed

text \<open>The first example observation has a retention capacity of zero.\<close>

theorem risque_hydrique_nonneg_witness:
  "\<exists>rh. map_of (fst (calculate_risk_metrics example_fused)) ''risque_hydrique''
           = Some (floats rh)
        \<and> rh ! 0 = Some (1 / (0 + eps)) \<and> (0::real) + eps \<noteq> 0 \<and> 0 \<le> 1 / (0 + eps)"
  using risque_hydrique_nonneg [of example_fused "[Some 1, Some 2]" "[Some 0, Some 3]" 0 1 0]
  by (simp add: example_fused_def floats_def eps_def)

subsection \<open>The global risk\<close>

text \<open>The formula, for any table with the four numeric columns.\<close>

lemma calculate_risk_metrics_global:
  assumes "map_of data ''stress_hydrique'' = Some (floats sh)"
    and "map_of data ''capacite_retention_eau'' = Some (floats cap)"
    and "map_of data ''ndvi'' = Some (floats ndvi)"
    and "map_of data ''rendement_moyen'' = Some (floats rm)"
    and "i < length sh" and "i < length cap" and "i < length ndvi" and "i < length rm"
    and "sh ! i = Some s" and "cap ! i = Some c" and "ndvi ! i = Some v" and "rm ! i = Some m"
    and "c + eps \<noteq> 0" and "Max (set (valid rm)) + eps \<noteq> 0"
  shows "\<exists>rh rg.
           map_of (fst (calculate_risk_metrics data)) ''risque_hydrique'' = Some (floats rh)
         \<and> map_of (fst (calculate_risk_metrics data)) ''risque_global'' = Some (floats rg)
         \<and> rh ! i = Some (s / (c + eps))
         \<and> rg ! i = Some (5 / 10 * (s / (c + eps)) + 3 / 10 * (1 - v)
                           + 2 / 10 * (1 - m / (Max (set (valid rm)) + eps)))"
proof -
  let ?rh = "risque_hydrique_of sh cap"
  let ?rg = "risque_global_of ?rh ndvi rm"
  have rh: "?rh ! i = Some (s / (c + eps))"
    using assms(5,6,9,10,13) by (simp add: risque_hydrique_of_nth)
  have mx: "nanmax rm = Some (Max (set (valid rm)))"
    by (rule nanmax_Max [OF assms(8,12)])
  have "i < length ?rh"
    using assms(5,6) by (simp add: length_risque_hydrique_of)
  then have rg: "?rg ! i = Some (5 / 10 * (s / (c + eps)) + 3 / 10 * (1 - v)
                           + 2 / 10 * (1 - m / (Max (set (valid rm)) + eps)))"
    using assms(7,8,11,12,14) by (simp add: risque_global_of_nth rh mx)
  have "map_of (fst (calculate_risk_metrics data)) ''risque_hydrique'' = Some (floats ?rh)"
    by (rule calculate_risk_metrics_hydrique [OF assms(1,2)])
  moreover have "map_of (fst (calculate_risk_metrics data)) ''risque_global'' = Some (floats ?rg)"
    by (simp add: calculate_risk_metrics_assigned [OF assms(1-4)] map_of_setcol)
  ultimately show ?thesis using rh rg by blast
qed

text \<open>
  \<open>_enrich_with_yield_history\<close> repeats every observation once for each yield record of
  its parcel, and takes the mean over the repeated rows; that mean is the mean of the
  parcel's yield records.
\<close>

lemma map_of_renamed:
  assumes "\<And>c. c \<in> fst ` set f \<Longrightarrow> rn c = k \<Longrightarrow> c = k" and "rn k = k"
  shows "map_of (map (\<lambda>(c, s). (rn c, g s)) f) k = map_option g (map_of f k)"
  using assms(1)
proof (induction f)
  case Nil
  then show ?case by simp
next
  case (Cons p f)
  obtain c s where p: "p = (c, s)" by (cases p)
  show ?case
  proof (cases "c = k")
    case True
    then show ?thesis by (simp add: p assms(2))
  next
    case False
    with Cons.prems [of c] have "rn c \<noteq> k" by (auto simp: p)
    with False Cons show ?thesis by (simp add: p)
  qed
qed

lemma map_of_renamed_None:
  assumes "\<And>c. c \<in> fst ` set f \<Longrightarrow> rn c \<noteq> k"
  shows "map_of (map (\<lambda>(c, s). (rn c, g s)) f) k = None"
  using assms
proof (induction f)
  case Nil
  then show ?case by simp
next
  case (Cons p f)
  obtain c s where p: "p = (c, s)" by (cases p)
  from Cons.prems [of c] have "rn c \<noteq> k" by (simp add: p)
  with Cons show ?case by (auto simp: p)
qed

lemma suffix_x_neq: "c @ ''_x'' \<noteq> ''parcelle_id''" "c @ ''_x'' \<noteq> ''rendement''"
  by (auto dest: arg_cong [where f = last])

lemma select_three_Inr:
  "select f [a, b, c] = Inr r \<Longrightarrow>
     \<exists>x y z. r = [(a, x), (b, y), (c, z)] \<and> map_of f a = Some x \<and> map_of f b = Some y
              \<and> map_of f c = Some z"
  by (auto simp: and_then_eq_Inr getcol_eq_Inr)

lemma pd_merge_history:
  assumes "pd_merge features [(''parcelle_id'', hk), (''annee'', ha), (''rendement'', hr)]
             [''parcelle_id''] Left = Inr e"
  shows "\<exists>fk. map_of features ''parcelle_id'' = Some fk
           \<and> map_of e ''parcelle_id''
               = Some (map (\<lambda>(i, j). fk ! i) (left_pairs fk hk (nrows features)))
           \<and> map_of e ''rendement''
               = (if ''rendement'' \<in> fst ` set features then None
                  else Some (map (\<lambda>(i, j). case j of None \<Rightarrow> None | Some k \<Rightarrow> hr ! k)
                               (left_pairs fk hk (nrows features))))"
proof -
  let ?hist = "[(''parcelle_id'', hk), (''annee'', ha), (''rendement'', hr)]"
  from assms have "''parcelle_id'' \<in> set (columns features)"
    by (auto simp: pd_merge_def split: option.splits if_splits)
  then obtain fk where fk: "map_of features ''parcelle_id'' = Some fk"
    by (auto simp: in_columns_iff)
  define pairs where "pairs = left_pairs fk hk (nrows features)"
  define rn :: "string \<Rightarrow> string" where
    "rn = (\<lambda>c. if c \<notin> set [''parcelle_id''] \<and> c \<in> set (columns ?hist) then c @ ''_x'' else c)"
  define lcols where
    "lcols = map (\<lambda>(c, s). (rn c, map (\<lambda>(i, j). s ! i) pairs)) features"
  define rcols where
    "rcols = map (\<lambda>(c, s). (if c \<in> set (columns features) then c @ ''_y'' else c,
               map (\<lambda>(i, j). case j of None \<Rightarrow> None | Some k \<Rightarrow> s ! k) pairs))
               [(''annee'', ha), (''rendement'', hr)]"
  have keys: "\<And>i j. (key_at ?hist [''parcelle_id''] j = key_at features [''parcelle_id''] i)
               = (hk ! j = fk ! i)"
    by (simp add: key_at_def fk)
  have find: "find (\<lambda>k. k \<notin> set (columns features) \<or> k \<notin> set (columns ?hist))
                 [''parcelle_id''] = None"
    using fk by (simp add: in_columns_iff)
  have pairs_eq:
    "concat (map (\<lambda>i.
         let ms = filter (\<lambda>j. key_at ?hist [''parcelle_id''] j
                                  = key_at features [''parcelle_id''] i) [0 ..< nrows ?hist]
         in if ms = [] then (case Left of Left \<Rightarrow> [(i, None)] | Inner \<Rightarrow> [])
            else map (\<lambda>j. (i, Some j)) ms)
       [0 ..< nrows features]) = pairs"
    by (simp add: pairs_def left_pairs_def keys nrows_def Let_def cong: if_cong)
  have "pd_merge features ?hist [''parcelle_id''] Left
          = join_columns [''parcelle_id''] features ?hist pairs"
    by (simp only: pd_merge_def find option.case pairs_eq)
  also have "\<dots> = (if distinct (columns (lcols @ rcols)) then Inr (lcols @ rcols)
                     else Inl MergeError)"
    by (simp add: join_columns_def Let_def lcols_def rcols_def rn_def)
  finally have e: "e = lcols @ rcols"
    using assms by (simp split: if_splits)
  have l1: "map_of lcols ''parcelle_id'' = Some (map (\<lambda>(i, j). fk ! i) pairs)"
    unfolding lcols_def
    by (subst map_of_renamed) (auto simp: rn_def fk suffix_x_neq split: if_splits)
  have l2: "map_of lcols ''rendement'' = None"
    unfolding lcols_def
    by (rule map_of_renamed_None) (auto simp: rn_def columns_def suffix_x_neq split: if_splits)
  have r2: "map_of rcols ''rendement''
              = (if ''rendement'' \<in> fst ` set features then None
                 else Some (map (\<lambda>(i, j). case j of None \<Rightarrow> None | Some k \<Rightarrow> hr ! k) pairs))"
    by (auto simp: rcols_def columns_def)
  show ?thesis
    using fk l1 l2 r2 by (auto simp: e map_add_def pairs_def)
qed

lemma map_filter_positions:
  "map (\<lambda>q. f (P ! q)) (filter (\<lambda>q. g (P ! q)) [0 ..< length P]) = map f (filter g P)"
proof -
  have "map f (filter g P) = map f (filter g (map (\<lambda>q. P ! q) [0 ..< length P]))"
    by (simp add: map_nth)
  also have "\<dots> = map (\<lambda>q. f (P ! q)) (filter (\<lambda>q. g (P ! q)) [0 ..< length P])"
    by (simp add: filter_map comp_def)
  finally show ?thesis by simp
qed

lemma valid_concat: "valid (concat ls) = concat (map valid ls)"
  by (induction ls) simp_all

lemma nanmean_valid_cong: "valid xs = valid ys \<Longrightarrow> nanmean xs = nanmean ys"
  by (simp add: nanmean_def)

lemma sum_list_repeated:
  "sum_list (concat (map (\<lambda>i. if c i then vs else []) l))
     = real (length (filter c l)) * sum_list (vs :: real list)"
  by (induction l) (simp_all add: algebra_simps)

lemma length_repeated:
  "length (concat (map (\<lambda>i. if c i then vs else []) l)) = length (filter c l) * length vs"
  by (induction l) simp_all

lemma nanmean_repeated:
  assumes "filter c l \<noteq> []"
  shows "nanmean (concat (map (\<lambda>i. if c i then V else []) l)) = nanmean V"
proof -
  let ?vs = "valid V"
  have v: "valid (concat (map (\<lambda>i. if c i then V else []) l))
             = concat (map (\<lambda>i. if c i then ?vs else []) l)"
    by (simp add: valid_concat comp_def if_distrib [of valid] cong: if_cong)
  from assms have pos: "0 < length (filter c l)" by simp
  show ?thesis
  proof (cases "?vs = []")
    case True
    then show ?thesis by (auto simp: nanmean_def v)
  next
    case False
    then have "0 < length ?vs" by simp
    with pos have "0 < length (filter c l) * length ?vs" by simp
    then have "0 < length (concat (map (\<lambda>i. if c i then ?vs else []) l))"
      by (simp only: length_repeated)
    then have ne: "concat (map (\<lambda>i. if c i then ?vs else []) l) \<noteq> []"
      using length_greater_0_conv by blast
    show ?thesis
      using False ne pos
      by (simp add: nanmean_def v np_mean_def sum_list_repeated length_repeated)
  qed
qed

lemma left_pairs_group_mean:
  fixes fk hk hr :: series
  defines "kf \<equiv> (\<lambda>p :: nat \<times> nat option. fk ! fst p)"
    and "vf \<equiv> (\<lambda>p :: nat \<times> nat option.
                  to_float (case snd p of None \<Rightarrow> None | Some q \<Rightarrow> hr ! q))"
  assumes r: "r < length (left_pairs fk hk n)"
    and k: "kf (left_pairs fk hk n ! r) = Some k"
  shows "groupby_transform_mean (map kf (left_pairs fk hk n)) (map vf (left_pairs fk hk n)) ! r
           = history_mean hk hr k"
proof -
  define F :: "nat \<Rightarrow> (nat \<times> nat option) list" where
    "F = (\<lambda>i. let ms = filter (\<lambda>j. hk ! j = fk ! i) [0 ..< length hk]
               in if ms = [] then [(i, None)] else map (\<lambda>j. (i, Some j)) ms)"
  define P where "P = left_pairs fk hk n"
  define M where "M = filter (\<lambda>j. hk ! j = Some k) [0 ..< length hk]"
  define V where "V = (if M = [] then [None] else map (\<lambda>j. to_float (hr ! j)) M)"
  have P: "P = concat (map F [0 ..< n])"
    by (simp add: P_def left_pairs_def F_def)
  have fstF: "\<And>i p. p \<in> set (F i) \<Longrightarrow> fst p = i"
    by (auto simp: F_def Let_def split: if_splits)
  have filterF: "\<And>i. filter (\<lambda>p. kf p = Some k) (F i) = (if fk ! i = Some k then F i else [])"
  proof -
    fix i
    have "\<forall>p \<in> set (F i). (kf p = Some k) = (fk ! i = Some k)"
      using fstF by (simp add: kf_def)
    then show "filter (\<lambda>p. kf p = Some k) (F i) = (if fk ! i = Some k then F i else [])"
      by (auto simp: filter_empty_conv filter_id_conv)
  qed
  have valF: "\<And>i. fk ! i = Some k \<Longrightarrow> map vf (F i) = V"
    by (simp add: F_def V_def M_def vf_def Let_def comp_def)
  from r have rP: "r < length P" by (simp add: P_def)
  from k have kP: "kf (P ! r) = Some k" by (simp add: P_def)
  have "P ! r \<in> set P" using rP by simp
  then obtain i0 where i0: "i0 < n" "P ! r \<in> set (F i0)"
    by (auto simp: P)
  with fstF kP have "fk ! i0 = Some k" by (auto simp: kf_def)
  with i0 have ne: "filter (\<lambda>i. fk ! i = Some k) [0 ..< n] \<noteq> []"
    by (auto simp: filter_empty_conv)
  have "groupby_transform_mean (map kf P) (map vf P) ! r
          = nanmean (map (\<lambda>q. map vf P ! q)
                       (filter (\<lambda>q. map kf P ! q = Some k) [0 ..< length P]))"
    using rP kP by (simp add: groupby_transform_mean_def)
  also have "map (\<lambda>q. map vf P ! q) (filter (\<lambda>q. map kf P ! q = Some k) [0 ..< length P])
          = map (\<lambda>q. vf (P ! q)) (filter (\<lambda>q. kf (P ! q) = Some k) [0 ..< length P])"
    by (intro map_cong filter_cong) auto
  also have "\<dots> = map vf (filter (\<lambda>p. kf p = Some k) P)"
    by (rule map_filter_positions)
  also have "\<dots> = concat (map (\<lambda>i. if fk ! i = Some k then V else []) [0 ..< n])"
    by (simp add: P filter_concat map_concat comp_def filterF valF if_distrib [of "map vf"]
          cong: if_cong)
  also have "nanmean \<dots> = nanmean V"
    by (rule nanmean_repeated [OF ne])
  also have "\<dots> = history_mean hk hr k"
  proof (cases "M = []")
    case True
    then show ?thesis
      by (simp add: history_mean_def V_def nanmean_def valid_def flip: M_def)
  next
    case False
    then show ?thesis
      by (simp add: history_mean_def V_def flip: M_def)
  qed
  finally show ?thesis by (simp add: P_def)
qed

lemma enrich_rendement_moyen:
  assumes "enrich_with_yield_history dm features = Inr data"
  shows "\<exists>hk hr keys rm.
           map_of (yield_history dm) ''parcelle_id'' = Some hk
         \<and> map_of (yield_history dm) ''rendement'' = Some hr
         \<and> map_of data ''parcelle_id'' = Some keys
         \<and> map_of data ''rendement_moyen'' = Some (floats rm)
         \<and> length rm = length keys
         \<and> (\<forall>(c, s) \<in> set data. length s = length keys)
         \<and> (\<forall>r k. r < length keys \<and> keys ! r = Some k \<longrightarrow> rm ! r = history_mean hk hr k)"
proof -
  from assms obtain hist e keys rcol xs
    where sel: "select (yield_history dm) [''parcelle_id'', ''annee'', ''rendement''] = Inr hist"
      and mrg: "pd_merge features hist [''parcelle_id''] Left = Inr e"
      and keys: "map_of e ''parcelle_id'' = Some keys"
      and rcol: "map_of e ''rendement'' = Some rcol"
      and xs: "as_floats rcol = Inr xs"
      and data: "data = setcol e ''rendement_moyen'' (floats (groupby_transform_mean keys xs))"
    unfolding enrich_with_yield_history_def
    by (auto simp: and_then_eq_Inr getcol_eq_Inr)
  from select_three_Inr [OF sel] obtain hk ha hr
    where hist: "hist = [(''parcelle_id'', hk), (''annee'', ha), (''rendement'', hr)]"
      and hk: "map_of (yield_history dm) ''parcelle_id'' = Some hk"
      and hr: "map_of (yield_history dm) ''rendement'' = Some hr"
    by blast
  from pd_merge_history [OF mrg [unfolded hist]] keys rcol obtain fk
    where k': "keys = map (\<lambda>(i, j). fk ! i) (left_pairs fk hk (nrows features))"
      and r': "rcol = map (\<lambda>(i, j). case j of None \<Rightarrow> None | Some k \<Rightarrow> hr ! k)
                       (left_pairs fk hk (nrows features))"
    by (auto split: if_splits)
  define P where "P = left_pairs fk hk (nrows features)"
  have kf: "keys = map (\<lambda>p. fk ! fst p) P"
    by (simp add: k' P_def case_prod_unfold)
  from xs have "xs = map to_float rcol"
    by (auto simp: as_floats_def split: if_splits)
  then have vf: "xs = map (\<lambda>p. to_float (case snd p of None \<Rightarrow> None | Some q \<Rightarrow> hr ! q)) P"
    by (simp add: r' P_def case_prod_unfold)
  define rm where "rm = groupby_transform_mean keys xs"
  have len: "length rm = length keys"
    by (simp add: rm_def groupby_transform_mean_def)
  have mean: "\<forall>r k. r < length keys \<and> keys ! r = Some k \<longrightarrow> rm ! r = history_mean hk hr k"
  proof (intro allI impI)
    fix r k assume a: "r < length keys \<and> keys ! r = Some k"
    then have "r < length P" and "fk ! fst (P ! r) = Some k"
      by (auto simp: kf)
    then show "rm ! r = history_mean hk hr k"
      unfolding rm_def kf vf P_def by (rule left_pairs_group_mean)
  qed
  from pd_merge_lengths [OF mrg] obtain n where n: "\<forall>(c, s) \<in> set e. length s = n" by blast
  from keys n have nk: "n = length keys"
    by (auto dest!: map_of_SomeD)
  have "set data \<subseteq> insert (''rendement_moyen'', floats rm) (set e)"
    unfolding data rm_def setcol_def by (rule set_update_subset)
  with n nk len have cols: "\<forall>(c, s) \<in> set data. length s = length keys"
    by (auto simp: floats_def)
  have "map_of data ''parcelle_id'' = Some keys" "map_of data ''rendement_moyen'' = Some (floats rm)"
    by (simp_all add: data map_of_setcol keys rm_def)
  with hk hr len cols mean show ?thesis by blast
qed

text \<open>
  C3: for every row of the fused table that \<open>_enrich_with_yield_history\<close> produces,
  \<open>calculate_risk_metrics\<close> computes
  \<open>risque_global = 0.5 * risque_hydrique + 0.3 * (1 - ndvi)
     + 0.2 * (1 - rendement_moyen / (max(rendement_moyen) + 1e-6))\<close>,
  where \<open>rendement_moyen\<close> is the mean of the yields that the history records for the
  row's parcel and the maximum runs over the whole column, that is over all parcels of the
  table. The row's stress, capacity and vegetation index are taken non-null and the two
  divisors non-zero; otherwise the result is not a finite number.
\<close>

theorem risque_global_formula:
  assumes "enrich_with_yield_history dm features = Inr data"
    and "map_of data ''stress_hydrique'' = Some (floats sh)"
    and "map_of data ''capacite_retention_eau'' = Some (floats cap)"
    and "map_of data ''ndvi'' = Some (floats ndvi)"
    and "i < length sh"
    and "sh ! i = Some s" and "cap ! i = Some c" and "ndvi ! i = Some v"
    and "c + eps \<noteq> 0"
  shows "\<exists>hk hr keys rm rh rg.
           map_of (yield_history dm) ''parcelle_id'' = Some hk
         \<and> map_of (yield_history dm) ''rendement'' = Some hr
         \<and> map_of data ''parcelle_id'' = Some keys
         \<and> map_of data ''rendement_moyen'' = Some (floats rm)
         \<and> map_of (fst (calculate_risk_metrics data)) ''risque_hydrique'' = Some (floats rh)
         \<and> map_of (fst (calculate_risk_metrics data)) ''risque_global'' = Some (floats rg)
         \<and> (\<forall>k. keys ! i = Some k \<longrightarrow> rm ! i = history_mean hk hr k)
         \<and> rh ! i = Some (s / (c + eps))
         \<and> (\<forall>m. rm ! i = Some m \<and> Max (set (valid rm)) + eps \<noteq> 0 \<longrightarrow>
                rg ! i = Some (5 / 10 * (s / (c + eps)) + 3 / 10 * (1 - v)
                               + 2 / 10 * (1 - m / (Max (set (valid rm)) + eps))))"
proof -
  from enrich_rendement_moyen [OF assms(1)] obtain hk hr keys rm
    where hk: "map_of (yield_history dm) ''parcelle_id'' = Some hk"
      and hr: "map_of (yield_history dm) ''rendement'' = Some hr"
      and keys: "map_of data ''parcelle_id'' = Some keys"
      and rm: "map_of data ''rendement_moyen'' = Some (floats rm)"
      and len: "length rm = length keys"
      and cols: "\<forall>(c, s) \<in> set data. length s = length keys"
      and mean: "\<forall>r k. r < length keys \<and> keys ! r = Some k \<longrightarrow> rm ! r = history_mean hk hr k"
    by blast
  have l: "length sh = length keys" "length cap = length keys" "length ndvi = length keys"
    using cols assms(2-4) by (auto dest!: map_of_SomeD simp: floats_def)
  with assms(5) len have i: "i < length cap" "i < length ndvi" "i < length rm" "i < length keys"
    by simp_all
  let ?rh = "risque_hydrique_of sh cap"
  let ?rg = "risque_global_of ?rh ndvi rm"
  have a: "map_of (fst (calculate_risk_metrics data)) ''risque_hydrique'' = Some (floats ?rh)"
    by (rule calculate_risk_metrics_hydrique [OF assms(2,3)])
  have b: "map_of (fst (calculate_risk_metrics data)) ''risque_global'' = Some (floats ?rg)"
    by (simp add: calculate_risk_metrics_assigned [OF assms(2-4) rm] map_of_setcol)
  have c: "?rh ! i = Some (s / (c + eps))"
    using assms(5-7,9) i by (simp add: risque_hydrique_of_nth)
  have d: "\<forall>m. rm ! i = Some m \<and> Max (set (valid rm)) + eps \<noteq> 0 \<longrightarrow>
                ?rg ! i = Some (5 / 10 * (s / (c + eps)) + 3 / 10 * (1 - v)
                               + 2 / 10 * (1 - m / (Max (set (valid rm)) + eps)))"
  proof (intro allI impI)
    fix m assume m: "rm ! i = Some m \<and> Max (set (valid rm)) + eps \<noteq> 0"
    then have mx: "nanmax rm = Some (Max (set (valid rm)))"
      using i by (simp add: nanmax_Max)
    have "i < length ?rh"
      using assms(5) i by (simp add: length_risque_hydrique_of)
    then show "?rg ! i = Some (5 / 10 * (s / (c + eps)) + 3 / 10 * (1 - v)
                               + 2 / 10 * (1 - m / (Max (set (valid rm)) + eps)))"
      using i assms(8) m by (simp add: risque_global_of_nth c mx)
  qed
  from mean i have e: "\<forall>k. keys ! i = Some k \<longrightarrow> rm ! i = history_mean hk hr k"
    by blast
  from hk hr keys rm a b c d e show ?thesis by blast
qed

text \<open>
  In the example the third row of the enriched table belongs to parcel P002, whose recorded
  yields 6 and 8 have the mean 7, the largest mean of the table.
\<close>

theorem risque_global_formula_witness:
  "\<exists>hk hr keys rm rh rg.
       map_of (yield_history example_loaded) ''parcelle_id'' = Some hk
     \<and> map_of (yield_history example_loaded) ''rendement'' = Some hr
     \<and> map_of example_enriched ''parcelle_id'' = Some keys
     \<and> map_of example_enriched ''rendement_moyen'' = Some (floats rm)
     \<and> map_of (fst (calculate_risk_metrics example_enriched)) ''risque_global''
         = Some (floats rg)
     \<and> keys ! 2 = Some (Txt ''P002'')
     \<and> rm ! 2 = history_mean hk hr (Txt ''P002'') \<and> rm ! 2 = Some 7
     \<and> Max (set (valid rm)) = 7
     \<and> rg ! 2 = Some (5 / 10 * (2 / (4 + eps)) + 3 / 10 * (1 - 1 / 4)
                       + 2 / 10 * (1 - 7 / (7 + eps)))"
proof -
  have cols:
    "map_of example_enriched ''stress_hydrique''
       = Some (floats [Some 1, Some 1, Some 2, Some 2, Some 3, Some 3])"
    "map_of example_enriched ''capacite_retention_eau''
       = Some (floats [Some 3, Some 3, Some 4, Some 4, Some 3, Some 3])"
    "map_of example_enriched ''ndvi''
       = Some (floats [Some (1 / 2), Some (1 / 2), Some (1 / 4), Some (1 / 4), Some (3 / 4),
                       Some (3 / 4)])"
    by (simp_all add: example_enriched_def example_merged_def floats_def)
  have rm: "map_of example_enriched ''rendement_moyen''
              = Some (floats [None, None, Some 7, Some 7, None, None])"
    and keys: "map_of example_enriched ''parcelle_id''
              = Some [Some (Txt ''P001''), Some (Txt ''P001''), Some (Txt ''P002''),
                      Some (Txt ''P002''), Some (Txt ''P001''), Some (Txt ''P001'')]"
    by (simp_all add: example_enriched_def example_merged_def floats_def)
  have "inj (map_option Num)"
    by (rule option.inj_map) (simp add: inj_on_def)
  then have inj: "\<And>a b. (floats a = floats b) = (a = b)"
    by (simp add: floats_def)
  have mx: "Max (set (valid [None, None, Some 7, Some 7, None, None :: real option])) = 7"
    by (simp add: valid_def)
  have e: "(4::real) + eps \<noteq> 0" "(7::real) + eps \<noteq> 0"
    by (simp_all add: eps_def)
  from risque_global_formula [OF example_enrich cols, of 2 2 4 "1 / 4"] e(1)
  show ?thesis
    by (simp add: rm keys inj mx e(2)) blast
qed

text \<open>
  C6 (as stated): computing the risk scores leaves the caller's table unchanged. The two
  assignments \<open>data["risque_hydrique"] = ...\<close> and \<open>data["risque_global"] = ...\<close> are made
  on the caller's table: after the call the example table has a column \<open>risque_global\<close>
  that it did not have.
\<close>

theorem calculate_risk_metrics_mutates_counterexample:
  "map_of example_fused ''risque_global'' = None
   \<and> map_of (fst (calculate_risk_metrics example_fused)) ''risque_global'' \<noteq> None
   \<and> fst (calculate_risk_metrics example_fused) \<noteq> example_fused"
proof -
  have a: "map_of example_fused ''risque_global'' = None"
    by (simp add: example_fused_def)
  have "fst (calculate_risk_metrics example_fused) =
           setcol (setcol example_fused ''risque_hydrique''
                     (floats (risque_hydrique_of [Some 1, Some 2] [Some 0, Some 3])))
             ''risque_global''
             (floats (risque_global_of (risque_hydrique_of [Some 1, Some 2] [Some 0, Some 3])
                        [Some (1 / 2), Some (1 / 4)] [Some 4, Some 5]))"
    by (rule calculate_risk_metrics_assigned) (simp_all add: example_fused_def floats_def)
  then have b: "map_of (fst (calculate_risk_metrics example_fused)) ''risque_global'' \<noteq> None"
    by (simp add: map_of_setcol)
  from a b show ?thesis by auto
qed

text \<open>
  C6 (amended): for every table with a column \<open>parcelle_id\<close> and numeric columns
  \<open>stress_hydrique\<close>, \<open>capacite_retention_eau\<close>, \<open>ndvi\<close> and \<open>rendement_moyen\<close>,
  \<open>calculate_risk_metrics\<close> returns the table of the three columns \<open>parcelle_id\<close>,
  \<open>risque_hydrique\<close> and \<open>risque_global\<close>, and assigns the same two risk columns in the
  caller's table, which then has its former columns and these two. On every input, also when
  the call raises, every other column of the caller's table is left as it was and no column
  is removed.
\<close>

theorem calculate_risk_metrics_frame:
  "(c \<noteq> ''risque_hydrique'' \<and> c \<noteq> ''risque_global''
      \<longrightarrow> map_of (fst (calculate_risk_metrics data)) c = map_of data c)
   \<and> set (columns data) \<subseteq> set (columns (fst (calculate_risk_metrics data)))
   \<and> (map_of data ''parcelle_id'' = Some ids
        \<and> map_of data ''stress_hydrique'' = Some (floats sh)
        \<and> map_of data ''capacite_retention_eau'' = Some (floats cap)
        \<and> map_of data ''ndvi'' = Some (floats ndvi)
        \<and> map_of data ''rendement_moyen'' = Some (floats rm)
      \<longrightarrow> calculate_risk_metrics data =
            (setcol (setcol data ''risque_hydrique'' (floats (risque_hydrique_of sh cap)))
               ''risque_global''
               (floats (risque_global_of (risque_hydrique_of sh cap) ndvi rm)),
             Inr [(''parcelle_id'', ids),
                  (''risque_hydrique'', floats (risque_hydrique_of sh cap)),
                  (''risque_global'',
                     floats (risque_global_of (risque_hydrique_of sh cap) ndvi rm))])
          \<and> set (columns (fst (calculate_risk_metrics data)))
              = set (columns data) \<union> {''risque_hydrique'', ''risque_global''})"
proof (intro conjI impI)
  assume "c \<noteq> ''risque_hydrique'' \<and> c \<noteq> ''risque_global''"
  then show "map_of (fst (calculate_risk_metrics data)) c = map_of data c"
    by (cases data rule: calculate_risk_metrics_cases) (auto simp: map_of_setcol)
next
  show "set (columns data) \<subseteq> set (columns (fst (calculate_risk_metrics data)))"
    by (cases data rule: calculate_risk_metrics_cases) (auto simp: in_columns_iff map_of_setcol)
next
  assume h: "map_of data ''parcelle_id'' = Some ids
        \<and> map_of data ''stress_hydrique'' = Some (floats sh)
        \<and> map_of data ''capacite_retention_eau'' = Some (floats cap)
        \<and> map_of data ''ndvi'' = Some (floats ndvi)
        \<and> map_of data ''rendement_moyen'' = Some (floats rm)"
  then have r: "calculate_risk_metrics data =
            (setcol (setcol data ''risque_hydrique'' (floats (risque_hydrique_of sh cap)))
               ''risque_global''
               (floats (risque_global_of (risque_hydrique_of sh cap) ndvi rm)),
             Inr [(''parcelle_id'', ids),
                  (''risque_hydrique'', floats (risque_hydrique_of sh cap)),
                  (''risque_global'',
                     floats (risque_global_of (risque_hydrique_of sh cap) ndvi rm))])"
    by (intro calculate_risk_metrics_result) simp_all
  then show "calculate_risk_metrics data =
            (setcol (setcol data ''risque_hydrique'' (floats (risque_hydrique_of sh cap)))
               ''risque_global''
               (floats (risque_global_of (risque_hydrique_of sh cap) ndvi rm)),
             Inr [(''parcelle_id'', ids),
                  (''risque_hydrique'', floats (risque_hydrique_of sh cap)),
                  (''risque_global'',
                     floats (risque_global_of (risque_hydrique_of sh cap) ndvi rm))])" .
  show "set (columns (fst (calculate_risk_metrics data)))
          = set (columns data) \<union> {''risque_hydrique'', ''risque_global''}"
    by (auto simp: r in_columns_iff map_of_setcol split: if_splits)
qed

text \<open>
  On the example table the call returns the three columns, the caller's table gains the
  two risk columns, and its column \<open>ndvi\<close> is as before.
\<close>

theorem calculate_risk_metrics_frame_witness:
  "''ndvi'' \<noteq> ''risque_hydrique'' \<and> ''ndvi'' \<noteq> ''risque_global''
   \<and> map_of (fst (calculate_risk_metrics example_fused)) ''ndvi''
       = Some [Some (Num (1 / 2)), Some (Num (1 / 4))]
   \<and> snd (calculate_risk_metrics example_fused) =
       Inr [(''parcelle_id'', [Some (Txt ''P001''), Some (Txt ''P002'')]),
            (''risque_hydrique'', floats (risque_hydrique_of [Some 1, Some 2] [Some 0, Some 3])),
            (''risque_global'',
               floats (risque_global_of (risque_hydrique_of [Some 1, Some 2] [Some 0, Some 3])
                         [Some (1 / 2), Some (1 / 4)] [Some 4, Some 5]))]
   \<and> risque_hydrique_of [Some 1, Some 2] [Some 0, Some 3] = [Some 1000000, Some (2000000 / 3000001)]
   \<and> set (columns (fst (calculate_risk_metrics example_fused)))
       = {''parcelle_id'', ''stress_hydrique'', ''capacite_retention_eau'', ''ndvi'',
          ''rendement_moyen'', ''risque_hydrique'', ''risque_global''}"
proof -
  have h: "map_of example_fused ''parcelle_id'' = Some [Some (Txt ''P001''), Some (Txt ''P002'')]
        \<and> map_of example_fused ''stress_hydrique'' = Some (floats [Some 1, Some 2])
        \<and> map_of example_fused ''capacite_retention_eau'' = Some (floats [Some 0, Some 3])
        \<and> map_of example_fused ''ndvi'' = Some (floats [Some (1 / 2), Some (1 / 4)])
        \<and> map_of example_fused ''rendement_moyen'' = Some (floats [Some 4, Some 5])"
    by (simp add: example_fused_def floats_def)
  have c: "set (columns example_fused) \<union> {''risque_hydrique'', ''risque_global''}
             = {''parcelle_id'', ''stress_hydrique'', ''capacite_retention_eau'', ''ndvi'',
                ''rendement_moyen'', ''risque_hydrique'', ''risque_global''}"
    by (simp add: example_fused_def columns_def insert_commute)
  have v: "risque_hydrique_of [Some 1, Some 2] [Some 0, Some 3]
             = [Some 1000000, Some (2000000 / 3000001)]"
    by (simp add: risque_hydrique_of_def eps_def)
  have n: "map_of example_fused ''ndvi'' = Some [Some (Num (1 / 2)), Some (Num (1 / 4))]"
    by (simp add: example_fused_def)
  have s: "''ndvi'' \<noteq> ''risque_hydrique'' \<and> ''ndvi'' \<noteq> ''risque_global''"
    by simp
  note t = calculate_risk_metrics_frame [of "''ndvi''" example_fused
      "[Some (Txt ''P001''), Some (Txt ''P002'')]" "[Some 1, Some 2]" "[Some 0, Some 3]"
      "[Some (1 / 2), Some (1 / 4)]" "[Some 4, Some 5]"]
  from t [THEN conjunct1, THEN mp, OF s]
  have 1: "map_of (fst (calculate_risk_metrics example_fused)) ''ndvi''
             = Some [Some (Num (1 / 2)), Some (Num (1 / 4))]"
    by (simp only: n)
  note r = t [THEN conjunct2, THEN conjunct2, THEN mp, OF h]
  from r [THEN conjunct1]
  have 2: "snd (calculate_risk_metrics example_fused) =
       Inr [(''parcelle_id'', [Some (Txt ''P001''), Some (Txt ''P002'')]),
            (''risque_hydrique'', floats (risque_hydrique_of [Some 1, Some 2] [Some 0, Some 3])),
            (''risque_global'',
               floats (risque_global_of (risque_hydrique_of [Some 1, Some 2] [Some 0, Some 3])
                         [Some (1 / 2), Some (1 / 4)] [Some 4, Some 5]))]"
    by (simp only: snd_conv)
  from r [THEN conjunct2]
  have 3: "set (columns (fst (calculate_risk_metrics example_fused)))
       = {''parcelle_id'', ''stress_hydrique'', ''capacite_retention_eau'', ''ndvi'',
          ''rendement_moyen'', ''risque_hydrique'', ''risque_global''}"
    by (simp only: c)
  from s 1 2 v 3 show ?thesis by (intro conjI) (erule conjunct1, erule conjunct2)
qed

section \<open>Yield-pattern analysis\<close>

lemma nrows_history:
  assumes "wf_frame f" and "map_of f c = Some ids"
  shows "nrows (mask_rows (\<lambda>i. ids ! i = v) f) = length (filter (\<lambda>x. x = v) ids)"
proof -
  from assms have len: "length ids = nrows f" by (rule wf_frame_col)
  from assms(2) have "f \<noteq> []" by auto
  then show ?thesis
    by (simp add: mask_rows_def nrows_take_rows len [symmetric] count_positions)
qed

lemma history_col_length:
  assumes "map_of (mask_rows keep f) c = Some col"
  shows "length col = nrows (mask_rows keep f)"
proof -
  from assms have ne: "f \<noteq> []" by (auto simp: mask_rows_def take_rows_def)
  from assms show ?thesis
    by (auto simp: mask_rows_def map_of_take_rows nrows_take_rows [OF ne])
qed

lemma length_interp_from: "length (interp_from a g xs) = g + length xs"
  by (induction a g xs rule: interp_from.induct) simp_all

lemma length_interpolate: "length (interpolate xs) = length xs"
proof -
  have split: "length (takeWhile (\<lambda>x. x = None) xs) + length (dropWhile (\<lambda>x. x = None) xs) = length xs"
    by (metis length_append takeWhile_dropWhile_id)
  show ?thesis
    using split
    by (auto simp: interpolate_def length_interp_from split: list.splits option.splits)
qed

lemma length_impute: "length (impute xs) = length xs"
  by (simp add: impute_def fillna_value_def length_interpolate Let_def)

lemma impute_no_null: "list_all (\<lambda>v. v \<noteq> None) xs \<Longrightarrow> impute xs = xs"
  by (simp add: impute_def list_all_iff filter_empty_conv)

lemma seasonal_decompose_short:
  "length x < 2 * period \<Longrightarrow> \<exists>e. seasonal_decompose x period = Inl e"
  by (simp add: seasonal_decompose_def)

lemma decompose_history_short:
  assumes "length col < 24"
  shows "\<exists>e. decompose_history history col = Inl e"
proof (cases "decompose_history history col")
  case (Inl e)
  then show ?thesis by blast
next
  case (Inr p)
  then obtain rendement d where r: "as_floats col = Inr rendement"
    and d: "seasonal_decompose (impute rendement) 12 = Inr d"
    unfolding decompose_history_def by (auto simp: and_then_eq_Inr)
  from r assms have "length (impute rendement) < 2 * 12"
    by (simp add: length_impute length_as_floats)
  from seasonal_decompose_short [OF this] d show ?thesis by simp
qed

lemma length_seasonal_filter_12: "length (seasonal_filter 12) = 13"
  by (simp add: seasonal_filter_def)

lemma length_convolution_filter_12:
  "24 \<le> length x \<Longrightarrow> length (convolution_filter x (seasonal_filter 12)) = length x"
  by (simp add: convolution_filter_def length_seasonal_filter_12 Let_def)

lemma seasonal_decompose_Inr:
  assumes "seasonal_decompose x 12 = Inr d"
  shows "list_all (\<lambda>v. v \<noteq> None) x" and "24 \<le> length x"
    and "trend d = convolution_filter (valid x) (seasonal_filter 12)"
    and "length (seasonal d) = length x"
    and "resid d = map2 fsub (map2 fsub x (trend d)) (seasonal d)"
  using assms
  by (auto simp: seasonal_decompose_def Let_def split: if_splits)

lemma seasonal_decompose_lengths:
  assumes "seasonal_decompose x 12 = Inr d"
  shows "length (trend d) = length x \<and> length (seasonal d) = length x
         \<and> length (resid d) = length x"
proof -
  note f = seasonal_decompose_Inr [OF assms]
  have t: "length (trend d) = length x"
    using f(1,2) by (simp add: f(3) length_convolution_filter_12 valid_all_Some)
  show ?thesis
    using t f(4) by (simp add: f(5))
qed

lemma fsub_Some: "fsub a b = Some r \<Longrightarrow> \<exists>u v. a = Some u \<and> b = Some v \<and> r = u - v"
  by (cases a; cases b) auto

lemma seasonal_decompose_round_trip:
  assumes d: "seasonal_decompose x 12 = Inr d"
    and i: "i < length x"
    and t: "trend d ! i = Some t" and s: "seasonal d ! i = Some s" and r: "resid d ! i = Some r"
  shows "x ! i = Some (t + s + r)"
proof -
  note l = seasonal_decompose_lengths [OF d]
  have "resid d ! i = fsub (fsub (x ! i) (trend d ! i)) (seasonal d ! i)"
    using i l by (simp add: seasonal_decompose_Inr(5) [OF d])
  with t s r have "fsub (fsub (x ! i) (Some t)) (Some s) = Some r" by simp
  then show ?thesis
    by (cases "x ! i") auto
qed

lemma decompose_history_Inr:
  assumes "decompose_history history col = Inr p"
  shows "\<exists>rendement d slope vm.
           as_floats col = Inr rendement
         \<and> seasonal_decompose (impute rendement) 12 = Inr d
         \<and> p = [(''trend'', Series (trend d)), (''seasonal'', Series (seasonal d)),
                (''resid'', Series (resid d)), (''slope'', Float (Some slope)),
                (''variation_mean'', Float vm)]"
  using assms unfolding decompose_history_def
  by (auto simp: and_then_eq_Inr)

lemma analyze_yield_patterns_Some:
  assumes "snd (analyze_yield_patterns dm parcelle_id) = Inr (Some p)"
  shows "\<exists>ids col.
           getcol (yield_history dm) ''parcelle_id'' = Inr ids
         \<and> getcol (mask_rows (\<lambda>i. ids ! i = Some parcelle_id) (yield_history dm)) ''rendement''
             = Inr col
         \<and> decompose_history (mask_rows (\<lambda>i. ids ! i = Some parcelle_id) (yield_history dm)) col
             = Inr p"
  using assms unfolding analyze_yield_patterns_def
  by (auto simp: Let_def and_then_eq_Inr split: sum.splits if_splits)

lemma analyze_yield_patterns_decomposition:
  assumes "snd (analyze_yield_patterns dm parcelle_id) = Inr (Some p)"
  shows "\<exists>x d. imputed_series dm parcelle_id = Inr x \<and> seasonal_decompose x 12 = Inr d
           \<and> map_of p ''trend'' = Some (Series (trend d))
           \<and> map_of p ''seasonal'' = Some (Series (seasonal d))
           \<and> map_of p ''resid'' = Some (Series (resid d))"
proof -
  from analyze_yield_patterns_Some [OF assms] obtain ids col
    where ids: "getcol (yield_history dm) ''parcelle_id'' = Inr ids"
      and col: "getcol (mask_rows (\<lambda>i. ids ! i = Some parcelle_id) (yield_history dm))
                  ''rendement'' = Inr col"
      and dh: "decompose_history (mask_rows (\<lambda>i. ids ! i = Some parcelle_id) (yield_history dm))
                 col = Inr p"
    by blast
  from decompose_history_Inr [OF dh] obtain rendement d slope vm
    where fl: "as_floats col = Inr rendement"
      and sd: "seasonal_decompose (impute rendement) 12 = Inr d"
      and p: "p = [(''trend'', Series (trend d)), (''seasonal'', Series (seasonal d)),
                   (''resid'', Series (resid d)), (''slope'', Float (Some slope)),
                   (''variation_mean'', Float vm)]"
    by blast
  have "imputed_series dm parcelle_id = Inr (impute rendement)"
    by (simp add: imputed_series_def ids col fl)
  with sd show ?thesis by (auto simp: p)
qed

lemma polyfit_slope_trend:
  assumes "seasonal_decompose x 12 = Inr d"
  shows "\<exists>slope. polyfit_slope (valid (trend d)) = Inr slope"
proof -
  note f = seasonal_decompose_Inr [OF assms]
  from f(1,2) have "length (valid (trend d)) = length x - 12"
    by (simp add: f(3) convolution_filter_def length_seasonal_filter_12 Let_def valid_all_Some)
  with f(2) have "2 \<le> length (valid (trend d))" by simp
  then have "valid (trend d) \<noteq> []" and "length (valid (trend d)) \<noteq> 1" by auto
  then show ?thesis
    by (simp add: polyfit_slope_def Let_def)
qed

text \<open>The analysis returns a result for a parcel with 24 records or more whose yields are
  all present.\<close>

lemma analyze_yield_patterns_succeeds:
  assumes wf: "wf_frame (yield_history dm)"
    and ids: "getcol (yield_history dm) ''parcelle_id'' = Inr ids"
    and n: "24 \<le> length (filter (\<lambda>c. c = Some parcelle_id) ids)"
    and rcol: "map_of (yield_history dm) ''rendement'' = Some rcol"
    and num: "list_all (\<lambda>c. c \<noteq> None \<and> is_numeric c) rcol"
    and dcol: "map_of (yield_history dm) ''date'' = Some dcol"
  shows "\<exists>p. analyze_yield_patterns dm parcelle_id = ([], Inr (Some p))"
proof -
  define h where "h = mask_rows (\<lambda>i. ids ! i = Some parcelle_id) (yield_history dm)"
  define col where
    "col = map (\<lambda>i. rcol ! i)
             (filter (\<lambda>i. ids ! i = Some parcelle_id) [0 ..< nrows (yield_history dm)])"
  define r where "r = map to_float col"
  from ids have m: "map_of (yield_history dm) ''parcelle_id'' = Some ids"
    by (simp add: getcol_eq_Inr)
  have nr: "nrows h = length (filter (\<lambda>c. c = Some parcelle_id) ids)"
    unfolding h_def by (rule nrows_history [OF wf m])
  have col: "getcol h ''rendement'' = Inr col"
    by (simp add: getcol_eq_Inr h_def col_def mask_rows_def map_of_take_rows rcol)
  have "\<exists>ds. getcol h ''date'' = Inr ds"
    by (simp add: getcol_eq_Inr h_def mask_rows_def map_of_take_rows dcol)
  then obtain ds where ds: "getcol h ''date'' = Inr ds" by blast
  have len: "length rcol = nrows (yield_history dm)"
    by (rule wf_frame_col [OF wf rcol])
  have ok: "list_all (\<lambda>c. c \<noteq> None \<and> is_numeric c) col"
    using num len by (auto simp: col_def list_all_iff)
  then have nulls: "null_count col = 0"
    by (auto simp: null_count_def list_all_iff filter_empty_conv)
  from ok have fl: "as_floats col = Inr r"
    by (auto simp: as_floats_def r_def list_all_iff)
  have nn: "list_all (\<lambda>v. v \<noteq> None) r"
  proof -
    have "\<forall>c \<in> set col. to_float c \<noteq> None"
      using ok to_float_numeric unfolding list_all_iff by fastforce
    then show ?thesis by (simp add: r_def list_all_iff)
  qed
  have "length col = nrows h"
    using col unfolding h_def by (simp only: getcol_eq_Inr history_col_length)
  with n nr have l24: "24 \<le> length r"
    by (simp add: r_def)
  have "\<exists>d. seasonal_decompose r 12 = Inr d"
    using nn l24 by (simp add: seasonal_decompose_def Let_def)
  then obtain d where d: "seasonal_decompose r 12 = Inr d" by blast
  from polyfit_slope_trend [OF d] obtain slope
    where sl: "polyfit_slope (valid (trend d)) = Inr slope" by blast
  have "\<exists>p. decompose_history h col = Inr p"
    by (simp add: decompose_history_def nulls ds fl impute_no_null [OF nn] d sl)
  then obtain p where "decompose_history h col = Inr p" by blast
  with n nr col nulls show ?thesis
    by (auto simp: analyze_yield_patterns_def ids Let_def simp flip: h_def)
qed

lemma example_wf: "wf_frame (yield_history example_manager)"
  by (simp add: example_manager_def example_history_def wf_frame_def nrows_def)

lemma example_ids:
  "getcol (yield_history example_manager) ''parcelle_id'' =
     Inr (replicate 24 (Some (Txt ''P001'')) @ replicate 2 (Some (Txt ''P002''))
            @ replicate 3 (Some (Txt ''P003'')))"
  by (simp add: example_manager_def example_history_def getcol_def)

lemma example_succeeds:
  "\<exists>p. analyze_yield_patterns example_manager (Txt ''P001'') = ([], Inr (Some p))"
proof (rule analyze_yield_patterns_succeeds [OF example_wf example_ids])
  show "map_of (yield_history example_manager) ''rendement''
          = Some (map (\<lambda>i. Some (Num (real i))) [0 ..< 29])"
    by (simp add: example_manager_def example_history_def)
  show "list_all (\<lambda>c. c \<noteq> None \<and> is_numeric c) (map (\<lambda>i. Some (Num (real i))) [0 ..< 29])"
    by (simp add: list_all_iff)
  show "map_of (yield_history example_manager) ''date''
          = Some (map (\<lambda>i. Some (Date (int i))) [0 ..< 29])"
    by (simp add: example_manager_def example_history_def)
qed simp

lemma example_imputed:
  "imputed_series example_manager (Txt ''P001'') = Inr (map (\<lambda>i. Some (real i)) [0 ..< 24])"
  by code_simp

lemma example_decomposition:
  "map_sum id (\<lambda>d. (trend d ! 6, seasonal d ! 6, resid d ! 6))
     (seasonal_decompose (map (\<lambda>i. Some (real i)) [0 ..< 24]) 12)
     = Inr (Some 6, Some 0, Some 0)"
  by code_simp

text \<open>
  C4: for every parcel whose selected yield history is empty or has fewer than 3
  observations, \<open>analyze_yield_patterns\<close> returns \<open>None\<close> and raises nothing; with no
  record it prints the no-data message, with one or two records the not-enough-data message.
\<close>

theorem analyze_yield_patterns_insufficient:
  assumes "wf_frame (yield_history dm)"
    and "getcol (yield_history dm) ''parcelle_id'' = Inr ids"
    and "length (filter (\<lambda>c. c = Some parcelle_id) ids) < 3"
  shows "analyze_yield_patterns dm parcelle_id =
           (if length (filter (\<lambda>c. c = Some parcelle_id) ids) = 0
            then [No_data_found] else [Not_enough_data], Inr None)"
proof -
  from assms(2) have m: "map_of (yield_history dm) ''parcelle_id'' = Some ids"
    by (simp add: getcol_eq_Inr)
  have n: "nrows (mask_rows (\<lambda>i. ids ! i = Some parcelle_id) (yield_history dm))
             = length (filter (\<lambda>c. c = Some parcelle_id) ids)"
    by (rule nrows_history [OF assms(1) m])
  from assms(3) show ?thesis
    by (simp add: analyze_yield_patterns_def assms(2) Let_def n)
qed

theorem analyze_yield_patterns_insufficient_witness:
  "analyze_yield_patterns example_manager (Txt ''P002'') = ([Not_enough_data], Inr None)
   \<and> analyze_yield_patterns example_manager (Txt ''P004'') = ([No_data_found], Inr None)"
  using analyze_yield_patterns_insufficient [OF example_wf example_ids, of "Txt ''P002''"]
    analyze_yield_patterns_insufficient [OF example_wf example_ids, of "Txt ''P004''"]
  by simp

text \<open>
  C10: for every parcel whose yield history has between 3 and 23 observations,
  \<open>analyze_yield_patterns\<close> raises an exception: it neither returns a result nor \<open>None\<close>.
  The guard of the function lets every series of 3 or more through, and the decomposition
  with \<open>period=12\<close> refuses a series shorter than 24.
\<close>

theorem analyze_yield_patterns_short_series_raises:
  assumes "wf_frame (yield_history dm)"
    and "getcol (yield_history dm) ''parcelle_id'' = Inr ids"
    and "3 \<le> length (filter (\<lambda>c. c = Some parcelle_id) ids)"
    and "length (filter (\<lambda>c. c = Some parcelle_id) ids) \<le> 23"
  shows "\<exists>e. snd (analyze_yield_patterns dm parcelle_id) = Inl e"
proof -
  let ?h = "mask_rows (\<lambda>i. ids ! i = Some parcelle_id) (yield_history dm)"
  from assms(2) have m: "map_of (yield_history dm) ''parcelle_id'' = Some ids"
    by (simp add: getcol_eq_Inr)
  have n: "nrows ?h = length (filter (\<lambda>c. c = Some parcelle_id) ids)"
    by (rule nrows_history [OF assms(1) m])
  show ?thesis
  proof (cases "getcol ?h ''rendement''")
    case (Inl e)
    with assms(3) show ?thesis
      by (auto simp: analyze_yield_patterns_def assms(2) Let_def n)
  next
    case (Inr col)
    then have "length col = nrows ?h"
      by (simp add: getcol_eq_Inr history_col_length)
    with n assms(4) have "length col < 24" by simp
    from decompose_history_short [OF this] obtain e
      where "decompose_history ?h col = Inl e" by blast
    with Inr assms(3) show ?thesis
      by (auto simp: analyze_yield_patterns_def assms(2) Let_def n)
  qed
qed

theorem analyze_yield_patterns_short_series_raises_witness:
  "\<exists>e. snd (analyze_yield_patterns example_manager (Txt ''P003'')) = Inl e"
  using analyze_yield_patterns_short_series_raises
          [OF example_wf example_ids, of "Txt ''P003''"]
  by simp

text \<open>
  C9 (amended): for every parcel on which \<open>analyze_yield_patterns\<close> succeeds, the returned
  dictionary has exactly the five keys \<open>trend\<close>, \<open>seasonal\<close>, \<open>resid\<close>, \<open>slope\<close> and
  \<open>variation_mean\<close>; it has no key \<open>stability_index\<close> and no key \<open>breakpoints\<close>.
\<close>

theorem analyze_yield_patterns_fields:
  assumes "snd (analyze_yield_patterns dm parcelle_id) = Inr (Some p)"
  shows "map fst p = [''trend'', ''seasonal'', ''resid'', ''slope'', ''variation_mean'']
         \<and> map_of p ''stability_index'' = None \<and> map_of p ''breakpoints'' = None"
proof -
  from analyze_yield_patterns_Some [OF assms] obtain h col
    where "decompose_history h col = Inr p" by blast
  from decompose_history_Inr [OF this] show ?thesis by auto
qed

text \<open>
  C9 (as stated): the returned result contains all seven fields, \<open>stability_index\<close> and
  \<open>breakpoints\<close> among them. For parcel P001 of the example the analysis succeeds and the
  result has five keys. The stability index and the breakpoints are computed by
  \<open>_calculate_stability_index\<close> and \<open>_detect_yield_breakpoints\<close> of the analyzer, which
  \<open>analyze_yield_patterns\<close> does not call.
\<close>

theorem analyze_yield_patterns_fields_counterexample:
  "result_keys (snd (analyze_yield_patterns example_manager (Txt ''P001'')))
     \<noteq> Inr (Some [''trend'', ''seasonal'', ''resid'', ''slope'', ''variation_mean'',
                      ''stability_index'', ''breakpoints''])
   \<and> result_keys (snd (analyze_yield_patterns example_manager (Txt ''P001'')))
     = Inr (Some [''trend'', ''seasonal'', ''resid'', ''slope'', ''variation_mean''])"
proof -
  from example_succeeds obtain p
    where p: "analyze_yield_patterns example_manager (Txt ''P001'') = ([], Inr (Some p))"
    by blast
  from analyze_yield_patterns_Some [of example_manager "Txt ''P001''" p] p obtain h col
    where "decompose_history h col = Inr p" by auto
  from decompose_history_Inr [OF this] show ?thesis
    by (auto simp: result_keys_def p)
qed

theorem analyze_yield_patterns_fields_witness:
  "result_keys (snd (analyze_yield_patterns example_manager (Txt ''P001'')))
     = Inr (Some [''trend'', ''seasonal'', ''resid'', ''slope'', ''variation_mean''])"
proof -
  from example_succeeds obtain p
    where p: "analyze_yield_patterns example_manager (Txt ''P001'') = ([], Inr (Some p))"
    by blast
  then have "snd (analyze_yield_patterns example_manager (Txt ''P001'')) = Inr (Some p)"
    by simp
  from analyze_yield_patterns_fields [OF this] show ?thesis
    by (simp add: result_keys_def p)
qed

text \<open>
  C7: for every yield series that \<open>analyze_yield_patterns\<close> decomposes, at every index
  where trend, seasonal component and residual are all defined, their sum is the value of
  the imputed input series at that index. Over the reals the sum is exact.
\<close>

theorem decomposition_round_trip:
  assumes "snd (analyze_yield_patterns dm parcelle_id) = Inr (Some p)"
  shows "\<exists>tr se re x.
           map_of p ''trend'' = Some (Series tr) \<and> map_of p ''seasonal'' = Some (Series se)
         \<and> map_of p ''resid'' = Some (Series re)
         \<and> imputed_series dm parcelle_id = Inr x
         \<and> length tr = length x \<and> length se = length x \<and> length re = length x
         \<and> (\<forall>i t s r. i < length x \<and> tr ! i = Some t \<and> se ! i = Some s \<and> re ! i = Some r
                \<longrightarrow> x ! i = Some (t + s + r))"
proof -
  from analyze_yield_patterns_Some [OF assms] obtain ids col
    where ids: "getcol (yield_history dm) ''parcelle_id'' = Inr ids"
      and col: "getcol (mask_rows (\<lambda>i. ids ! i = Some parcelle_id) (yield_history dm))
                  ''rendement'' = Inr col"
      and dh: "decompose_history (mask_rows (\<lambda>i. ids ! i = Some parcelle_id) (yield_history dm))
                 col = Inr p"
    by blast
  from decompose_history_Inr [OF dh] obtain rendement d slope vm
    where fl: "as_floats col = Inr rendement"
      and sd: "seasonal_decompose (impute rendement) 12 = Inr d"
      and p: "p = [(''trend'', Series (trend d)), (''seasonal'', Series (seasonal d)),
                   (''resid'', Series (resid d)), (''slope'', Float (Some slope)),
                   (''variation_mean'', Float vm)]"
    by blast
  have x: "imputed_series dm parcelle_id = Inr (impute rendement)"
    by (simp add: imputed_series_def ids col fl)
  have rt: "\<forall>i t s r. i < length (impute rendement) \<and> trend d ! i = Some t
              \<and> seasonal d ! i = Some s \<and> resid d ! i = Some r
              \<longrightarrow> impute rendement ! i = Some (t + s + r)"
    using seasonal_decompose_round_trip [OF sd] by blast
  show ?thesis
    using x rt seasonal_decompose_lengths [OF sd] by (simp add: p)
qed

theorem decomposition_round_trip_witness:
  "\<exists>p tr se re x.
       snd (analyze_yield_patterns example_manager (Txt ''P001'')) = Inr (Some p)
     \<and> map_of p ''trend'' = Some (Series tr) \<and> map_of p ''seasonal'' = Some (Series se)
     \<and> map_of p ''resid'' = Some (Series re)
     \<and> imputed_series example_manager (Txt ''P001'') = Inr x
     \<and> 6 < length x \<and> tr ! 6 = Some 6 \<and> se ! 6 = Some 0 \<and> re ! 6 = Some 0
     \<and> x ! 6 = Some (6 + 0 + 0)"
proof -
  from example_succeeds obtain p
    where "analyze_yield_patterns example_manager (Txt ''P001'') = ([], Inr (Some p))" by blast
  then have p: "snd (analyze_yield_patterns example_manager (Txt ''P001'')) = Inr (Some p)"
    by simp
  from analyze_yield_patterns_decomposition [OF p] obtain d
    where d: "seasonal_decompose (map (\<lambda>i. Some (real i)) [0 ..< 24]) 12 = Inr d"
      and t: "map_of p ''trend'' = Some (Series (trend d))"
      and s: "map_of p ''seasonal'' = Some (Series (seasonal d))"
      and r: "map_of p ''resid'' = Some (Series (resid d))"
    by (auto simp: example_imputed)
  from example_decomposition d
  have v: "trend d ! 6 = Some 6" "seasonal d ! 6 = Some 0" "resid d ! 6 = Some 0"
    by simp_all
  from decomposition_round_trip [OF p] t s r v
  have "map (\<lambda>i. Some (real i)) [0 ..< 24] ! 6 = Some ((6::real) + 0 + 0)"
    by (auto simp: example_imputed)
  with p t s r v show ?thesis
    by (auto simp: example_imputed)
qed

section \<open>Breakpoint detection\<close>

lemma np_var_nonneg: "0 \<le> np_var xs"
  unfolding np_var_def np_mean_def
  by (intro divide_nonneg_nonneg sum_list_nonneg) auto

lemma abs_gt_sqrt_iff:
  assumes "0 \<le> v"
  shows "(sqrt v < \<bar>d\<bar>) = (v < d\<^sup>2)"
proof -
  have "(sqrt v < \<bar>d\<bar>) = (sqrt v < sqrt (d\<^sup>2))" by simp
  also have "\<dots> = (v < d\<^sup>2)" by (rule real_sqrt_less_iff)
  finally show ?thesis .
qed

lemma jump_gt_std: "(np_std ys < \<bar>d\<bar>) = (np_var ys < d\<^sup>2)"
  unfolding np_std_def by (rule abs_gt_sqrt_iff [OF np_var_nonneg])

lemma upt_1_5: "[1 ..< 5] = [1, 2, 3, 4::nat]"
  by (simp add: upt_rec)

lemma np_var_literal: "np_var [5, 5, 5, 9, 5, 5] = 20 / 9"
  by (simp add: np_var_def np_mean_def power2_eq_square)

lemma np_var_last_jump: "np_var [5, 5, 5, 5, 5, 9] = 20 / 9"
  by (simp add: np_var_def np_mean_def power2_eq_square)

text \<open>
  C5: the detector is to flag index \<open>i\<close> exactly when
  \<open>|series[i] - series[i-1]| > std(series)\<close>. The loop runs over
  \<open>range(1, len(yield_series) - 1)\<close> although its body reads only the indices \<open>i\<close> and
  \<open>i - 1\<close>, so the code flags \<open>i\<close> exactly when the jump exceeds the standard deviation
  and \<open>i\<close> is not the last index: on \<open>[5,5,5,5,5,9]\<close> the jump into the last index is 4,
  the standard deviation is below it, and the code flags nothing. On the literal series
  \<open>[5,5,5,9,5,5]\<close> the code flags the indices 3 and 4; the jump out of the spike at index 4
  is as large as the jump into it, so the rule itself flags both.
\<close>

theorem detect_yield_breakpoints_skips_last:
  "(i \<in> set (detect_yield_breakpoints ys))
     = (1 \<le> i \<and> i + 1 < length ys \<and> \<bar>ys ! i - ys ! (i - 1)\<bar> > np_std ys)
   \<and> detect_yield_breakpoints [5, 5, 5, 5, 5, 9] = []
   \<and> \<bar>[5, 5, 5, 5, 5, 9] ! 5 - [5, 5, 5, 5, 5, 9] ! (5 - 1)\<bar> > np_std [5, 5, 5, 5, 5, 9]
   \<and> detect_yield_breakpoints [5, 5, 5, 9, 5, 5] = [3, 4]"
proof (intro conjI)
  show "(i \<in> set (detect_yield_breakpoints ys))
     = (1 \<le> i \<and> i + 1 < length ys \<and> \<bar>ys ! i - ys ! (i - 1)\<bar> > np_std ys)"
    by (auto simp: detect_yield_breakpoints_def)
  show "detect_yield_breakpoints [5, 5, 5, 5, 5, 9] = []"
    by (simp add: detect_yield_breakpoints_def jump_gt_std np_var_last_jump upt_1_5)
  show "\<bar>[5, 5, 5, 5, 5, 9] ! 5 - [5, 5, 5, 5, 5, 9] ! (5 - 1)\<bar> > np_std [5, 5, 5, 5, 5, 9]"
    using jump_gt_std [of "[5, 5, 5, 5, 5, 9]" 4] by (simp add: np_var_last_jump)
  show "detect_yield_breakpoints [5, 5, 5, 9, 5, 5] = [3, 4]"
    by (simp add: detect_yield_breakpoints_def jump_gt_std np_var_literal upt_1_5)
qed

end
